theory Spec2Isabelle
  imports Complex_Main
begin

section \<open>Python values and exceptions\<close>

text \<open>
  The program is the class \<open>ImageImportProcessor\<close> of \<open>image_input.py\<close>. Every
  method is modelled as a function that returns \<open>Inl e\<close> where the Python raises
  \<open>e\<close> to its caller and \<open>Inr v\<close> where it returns \<open>v\<close>. A \<open>try ... except\<close>
  block is a case distinction on the outcome of its body.
\<close>

datatype py_error =
    AttributeError
  | ZeroDivisionError
  | IndexError
  | TypeError
  | ValueError
  | FileNotFoundError
  | OSError
  | JSONDecodeError
  | KeyError
  | LoadFailed py_error

text \<open>\<open>LoadFailed e\<close> is the \<open>Exception("... " + str(e))\<close> that
  \<open>load_image_from_path\<close> raises in its handler.\<close>

datatype py_value = PyNone | PyStr string

section \<open>Similarity of two fingerprints\<close>

text \<open>\<open>str.split(sep)\<close> with a one-character separator: the pieces between the
  occurrences of \<open>sep\<close>; the result always has at least one piece.\<close>

fun py_split :: "char \<Rightarrow> string \<Rightarrow> string list" where
  "py_split sep [] = [[]]"
| "py_split sep (c # cs) =
     (if c = sep then [] # py_split sep cs
      else (case py_split sep cs of
              [] \<Rightarrow> [[c]]
            | p # ps \<Rightarrow> (c # p) # ps))"

text \<open>\<open>sum(c1 != c2 for c1, c2 in zip(p1, p2))\<close>\<close>

definition distance :: "string \<Rightarrow> string \<Rightarrow> nat" where
  "distance p1 p2 = sum_list (map (\<lambda>(c1, c2). if c1 \<noteq> c2 then 1 else 0) (zip p1 p2))"

text \<open>
  The body of the \<open>for p1, p2 in zip(parts1, parts2)\<close> loop, with the list
  \<open>similarities\<close> as accumulator. The division \<open>distance / max_len\<close> raises
  \<open>ZeroDivisionError\<close> when both components are empty. Python's floats are modelled
  by exact rationals.
\<close>

fun similarity_loop :: "(string \<times> string) list \<Rightarrow> rat list \<Rightarrow> py_error + rat list" where
  "similarity_loop [] similarities = Inr similarities"
| "similarity_loop ((p1, p2) # rest) similarities =
     (let max_len = max (length p1) (length p2) in
      if max_len = 0 then Inl ZeroDivisionError
      else similarity_loop rest
             (similarities @ [(1 - rat_of_nat (distance p1 p2) / rat_of_nat max_len) * 100]))"

text \<open>The body of the \<open>try\<close> block. A fingerprint is \<open>None\<close> when
  \<open>generate_perceptual_hash\<close> gave up; \<open>None.split\<close> raises \<open>AttributeError\<close>.\<close>

definition similarity_body :: "string option \<Rightarrow> string option \<Rightarrow> py_error + rat" where
  "similarity_body fp1 fp2 =
     (case fp1 of
        None \<Rightarrow> Inl AttributeError
      | Some s1 \<Rightarrow>
          (case fp2 of
             None \<Rightarrow> Inl AttributeError
           | Some s2 \<Rightarrow>
               (case similarity_loop (zip (py_split CHR ''_'' s1) (py_split CHR ''_'' s2)) [] of
                  Inl e \<Rightarrow> Inl e
                | Inr similarities \<Rightarrow>
                    if length similarities = 0 then Inl ZeroDivisionError
                    else Inr (sum_list similarities / rat_of_nat (length similarities)))))"

text \<open>\<open>calculate_fingerprint_similarity\<close>: the bare \<open>except: return 0\<close> turns
  every exception of the body into the score 0.\<close>

definition calculate_fingerprint_similarity ::
    "string option \<Rightarrow> string option \<Rightarrow> py_error + rat" where
  "calculate_fingerprint_similarity fp1 fp2 =
     (case similarity_body fp1 fp2 of
        Inl e \<Rightarrow> Inr 0
      | Inr s \<Rightarrow> Inr s)"

text \<open>A fingerprint as \<open>generate_perceptual_hash\<close> builds it has no empty component:
  each component is the hexadecimal text of a hash.\<close>

definition valid_fingerprint :: "string \<Rightarrow> bool" where
  "valid_fingerprint fp = list_all (\<lambda>p. p \<noteq> []) (py_split CHR ''_'' fp)"

section \<open>The fingerprint database\<close>

text \<open>The entries of \<open>self.fingerprint_database\<close>, with the keys that
  \<open>add_to_fingerprint_database\<close> writes.\<close>

record location_entry =
  loc_path :: string
  loc_filename :: string
  loc_timestamp :: string
  loc_size :: int

record fingerprint_record =
  fingerprint :: string
  original_filename :: string
  first_seen :: string
  locations :: "location_entry list"
  count :: int

text \<open>A Python \<open>dict\<close> keeps its keys in insertion order, and \<open>items()\<close> iterates
  in that order: the database is an association list. Assigning to a key that is
  present keeps its position; a new key goes to the end.\<close>

type_synonym database = "(string \<times> fingerprint_record) list"

fun dict_set :: "('k \<times> 'v) list \<Rightarrow> 'k \<Rightarrow> 'v \<Rightarrow> ('k \<times> 'v) list" where
  "dict_set [] k v = [(k, v)]"
| "dict_set ((k', v') # rest) k v =
     (if k' = k then (k, v) # rest else (k', v') # dict_set rest k v)"

text \<open>The dictionaries that \<open>find_similar_images\<close> collects (keys \<open>id\<close>,
  \<open>similarity\<close>, \<open>data\<close>).\<close>

record similar_image =
  sim_id :: string
  similarity :: rat
  sim_data :: fingerprint_record

text \<open>The \<open>for fp_id, fp_data in self.fingerprint_database.items()\<close> loop, with the
  list \<open>similar_images\<close> as accumulator.\<close>

fun scan_database ::
    "string option \<Rightarrow> rat \<Rightarrow> database \<Rightarrow> similar_image list \<Rightarrow> py_error + similar_image list" where
  "scan_database fp threshold [] similar_images = Inr similar_images"
| "scan_database fp threshold ((fp_id, fp_data) # rest) similar_images =
     (case calculate_fingerprint_similarity fp (Some (fingerprint fp_data)) of
        Inl e \<Rightarrow> Inl e
      | Inr s \<Rightarrow>
          scan_database fp threshold rest
            (if s \<ge> threshold
             then similar_images @ [\<lparr>sim_id = fp_id, similarity = s, sim_data = fp_data\<rparr>]
             else similar_images))"

text \<open>\<open>find_similar_images\<close>. \<open>list.sort(key=..., reverse=True)\<close> is a stable sort
  in descending order of the key: elements with equal keys keep their order. That is
  the stable insertion sort \<open>sort_key\<close> on the negated key.\<close>

definition find_similar_images ::
    "database \<Rightarrow> string option \<Rightarrow> rat \<Rightarrow> py_error + similar_image list" where
  "find_similar_images db fp threshold =
     (case scan_database fp threshold db [] of
        Inl e \<Rightarrow> Inl e
      | Inr similar_images \<Rightarrow> Inr (sort_key (\<lambda>x. - similarity x) similar_images))"

section \<open>The processor, the file system and the libraries\<close>

text \<open>The \<open>image_info\<close> dictionary of \<open>load_image_from_path\<close>. \<open>file_size\<close> is
  read with \<open>.get('file_size', 0)\<close>, so it may be absent. The type \<open>'arr\<close> is
  numpy's array.\<close>

record 'arr image_info =
  info_array :: 'arr
  info_path :: string
  info_size :: "nat \<times> nat"
  info_mode :: string
  info_format :: string
  info_filename :: string
  info_fingerprint :: "string option"
  info_load_time :: string
  info_file_size :: "int option"

text \<open>The fields of \<open>self\<close> that the modelled methods read or write.\<close>

record 'arr processor =
  storage_file :: string
  fingerprint_database :: database
  loaded_images :: "string \<rightharpoonup> 'arr image_info"

text \<open>The files on disk: a path has a content or does not exist.\<close>

type_synonym filesystem = "string \<rightharpoonup> string"

text \<open>What the operating system decides in one call: whether \<open>os.makedirs\<close>,
  \<open>open\<close>, \<open>os.path.getsize\<close> or \<open>os.rename\<close> raise, and whether writing the
  file raises after only the first \<open>n\<close> characters reached it (disk full, I/O
  error).\<close>

record io_faults =
  makedirs_fails :: bool
  open_fails :: bool
  write_fails :: "nat option"
  getsize_fails :: bool
  rename_fails :: bool

text \<open>The library functions that the storage methods call: \<open>hashlib.md5(s.encode()).hexdigest()\<close>,
  \<open>json.dump\<close> with the arguments of the source, and \<open>json.load\<close>, which raises on
  text that is no JSON document.\<close>

record storage_lib =
  md5_hexdigest :: "string \<Rightarrow> string"
  json_dump :: "database \<Rightarrow> string"
  json_load :: "string \<Rightarrow> py_error + database"

definition os_makedirs :: "io_faults \<Rightarrow> py_error + unit" where
  "os_makedirs faults = (if makedirs_fails faults then Inl OSError else Inr ())"

text \<open>\<open>open(path, 'w')\<close> truncates the file as soon as it succeeds.\<close>

definition open_write :: "io_faults \<Rightarrow> filesystem \<Rightarrow> string \<Rightarrow> py_error + filesystem" where
  "open_write faults fs path =
     (if open_fails faults then Inl OSError else Inr (fs(path \<mapsto> [])))"

definition file_write ::
    "io_faults \<Rightarrow> filesystem \<Rightarrow> string \<Rightarrow> string \<Rightarrow> filesystem \<times> (py_error + unit)" where
  "file_write faults fs path content =
     (case write_fails faults of
        None \<Rightarrow> (fs(path \<mapsto> content), Inr ())
      | Some n \<Rightarrow> (fs(path \<mapsto> take n content), Inl OSError))"

definition read_file :: "io_faults \<Rightarrow> filesystem \<Rightarrow> string \<Rightarrow> py_error + string" where
  "read_file faults fs path =
     (if open_fails faults then Inl OSError
      else (case fs path of None \<Rightarrow> Inl FileNotFoundError | Some content \<Rightarrow> Inr content))"

definition os_rename ::
    "io_faults \<Rightarrow> filesystem \<Rightarrow> string \<Rightarrow> string \<Rightarrow> filesystem \<times> (py_error + unit)" where
  "os_rename faults fs src dst =
     (if rename_fails faults \<or> fs src = None then (fs, Inl OSError)
      else ((fs(src := None))(dst := fs src), Inr ()))"

section \<open>Saving and loading the database\<close>

text \<open>\<open>save_fingerprint_database\<close>: the handler \<open>except Exception\<close> turns every
  failure of the body into the result \<open>False\<close>.\<close>

definition save_fingerprint_database ::
    "storage_lib \<Rightarrow> io_faults \<Rightarrow> filesystem \<Rightarrow> 'arr processor \<Rightarrow> filesystem \<times> (py_error + bool)" where
  "save_fingerprint_database lib faults fs st =
     (case os_makedirs faults of
        Inl e \<Rightarrow> (fs, Inr False)
      | Inr u \<Rightarrow>
          (case open_write faults fs (storage_file st) of
             Inl e \<Rightarrow> (fs, Inr False)
           | Inr fs1 \<Rightarrow>
               (case file_write faults fs1 (storage_file st)
                       (json_dump lib (fingerprint_database st)) of
                  (fs2, Inl e) \<Rightarrow> (fs2, Inr False)
                | (fs2, Inr u') \<Rightarrow> (fs2, Inr True))))"

text \<open>\<open>load_fingerprint_database\<close>: when reading or parsing raises (or
  \<open>os.path.getsize\<close> in the report that follows), the file is renamed to
  \<open>storage_file + '.backup'\<close> (a failure of the rename is passed over) and the
  database is reset.\<close>

definition load_fingerprint_database ::
    "storage_lib \<Rightarrow> io_faults \<Rightarrow> filesystem \<Rightarrow> 'arr processor \<Rightarrow>
       filesystem \<times> 'arr processor \<times> (py_error + py_value)" where
  "load_fingerprint_database lib faults fs st =
     (if fs (storage_file st) \<noteq> None then
        (case (case read_file faults fs (storage_file st) of
                 Inl e \<Rightarrow> Inl e
               | Inr content \<Rightarrow>
                   (case json_load lib content of
                      Inl e \<Rightarrow> Inl e
                    | Inr db \<Rightarrow> if getsize_fails faults then Inl OSError else Inr db)) of
           Inr db \<Rightarrow> (fs, st\<lparr>fingerprint_database := db\<rparr>, Inr PyNone)
         | Inl e \<Rightarrow>
             (case os_rename faults fs (storage_file st) (storage_file st @ ''.backup'') of
                (fs', r) \<Rightarrow> (fs', st\<lparr>fingerprint_database := []\<rparr>, Inr PyNone)))
      else (fs, st\<lparr>fingerprint_database := []\<rparr>, Inr PyNone))"

section \<open>Recording an observation\<close>

text \<open>
  \<open>add_to_fingerprint_database\<close>. \<open>t_first\<close> and \<open>t_loc\<close> are the two readings of
  \<open>datetime.now().isoformat()\<close>. \<open>fingerprint.encode()\<close> raises \<open>AttributeError\<close>
  on \<open>None\<close>, before anything is changed. The method has no \<open>return\<close> statement: it
  returns \<open>None\<close>. The result of \<open>save_fingerprint_database\<close> is not looked at.
\<close>

definition add_to_fingerprint_database ::
    "storage_lib \<Rightarrow> io_faults \<Rightarrow> string \<Rightarrow> string \<Rightarrow> filesystem \<Rightarrow> 'arr processor \<Rightarrow>
       string option \<Rightarrow> 'arr image_info \<Rightarrow>
       filesystem \<times> 'arr processor \<times> (py_error + py_value)" where
  "add_to_fingerprint_database lib faults t_first t_loc fs st fp image_info =
     (case fp of
        None \<Rightarrow> (fs, st, Inl AttributeError)
      | Some f \<Rightarrow>
          (let fp_id = take 16 (md5_hexdigest lib f);
               db0 = fingerprint_database st;
               db1 = (if map_of db0 fp_id = None
                      then dict_set db0 fp_id
                             \<lparr>fingerprint = f,
                              original_filename = info_filename image_info,
                              first_seen = t_first,
                              locations = [],
                              count = 0\<rparr>
                      else db0)
           in (case map_of db1 fp_id of
                 None \<Rightarrow> (fs, st\<lparr>fingerprint_database := db1\<rparr>, Inl KeyError)
               | Some r \<Rightarrow>
                   (let entry = \<lparr>loc_path = info_path image_info,
                                 loc_filename = info_filename image_info,
                                 loc_timestamp = t_loc,
                                 loc_size = (case info_file_size image_info of
                                               None \<Rightarrow> 0 | Some n \<Rightarrow> n)\<rparr>;
                        db2 = dict_set db1 fp_id
                                (r\<lparr>locations := locations r @ [entry], count := count r + 1\<rparr>);
                        st' = st\<lparr>fingerprint_database := db2\<rparr>
                    in (case save_fingerprint_database lib faults fs st' of
                          (fs', saved) \<Rightarrow> (fs', st', Inr PyNone))))))"

text \<open>A sequence of calls, each with its own arguments; a caller that catches the
  exception of one call goes on with the next.\<close>

record 'arr add_call =
  call_faults :: io_faults
  call_t_first :: string
  call_t_loc :: string
  call_fingerprint :: "string option"
  call_info :: "'arr image_info"

fun add_calls ::
    "storage_lib \<Rightarrow> 'arr add_call list \<Rightarrow> filesystem \<Rightarrow> 'arr processor \<Rightarrow>
       filesystem \<times> 'arr processor" where
  "add_calls lib [] fs st = (fs, st)"
| "add_calls lib (c # cs) fs st =
     (case add_to_fingerprint_database lib (call_faults c) (call_t_first c) (call_t_loc c)
             fs st (call_fingerprint c) (call_info c) of
        (fs', st', r) \<Rightarrow> add_calls lib cs fs' st')"

section \<open>Generating a fingerprint and loading an image\<close>

text \<open>
  The functions of PIL, numpy, OpenCV, imagehash, hashlib and \<open>os.path\<close> that the
  methods call are parameters of the model; each one that can raise returns a sum.
  \<open>'arr\<close> is numpy's array and \<open>'img\<close> is PIL's image. \<open>image_open\<close> is
  \<open>Image.open\<close> on the bytes of the file, \<open>times255_uint8\<close> is
  \<open>(image_array * 255).astype(np.uint8)\<close>, the three hash fields are
  \<open>str(imagehash.average_hash(img))\<close>, \<open>str(imagehash.phash(img))\<close> and
  \<open>str(imagehash.dhash(img))\<close>, and \<open>sha256_base64\<close> is
  \<open>base64.b64encode(hashlib.sha256(a.tobytes()).digest()).decode('utf-8')\<close>.
\<close>

record ('arr, 'img) image_lib =
  image_open :: "string \<Rightarrow> py_error + 'img"
  img_size :: "'img \<Rightarrow> nat \<times> nat"
  img_mode :: "'img \<Rightarrow> string"
  img_format :: "'img \<Rightarrow> string option"
  np_array :: "'img \<Rightarrow> 'arr"
  array_shape :: "'arr \<Rightarrow> nat list"
  gray2rgb :: "'arr \<Rightarrow> py_error + 'arr"
  rgba2rgb :: "'arr \<Rightarrow> py_error + 'arr"
  is_uint8 :: "'arr \<Rightarrow> bool"
  times255_uint8 :: "'arr \<Rightarrow> py_error + 'arr"
  fromarray :: "'arr \<Rightarrow> py_error + 'img"
  average_hash :: "'img \<Rightarrow> py_error + string"
  phash :: "'img \<Rightarrow> py_error + string"
  dhash :: "'img \<Rightarrow> py_error + string"
  sha256_base64 :: "'arr \<Rightarrow> string"
  path_ext :: "string \<Rightarrow> string"
  path_basename :: "string \<Rightarrow> string"
  str_lower :: "string \<Rightarrow> string"
  str_upper :: "string \<Rightarrow> string"

text \<open>The body of the \<open>try\<close> block of \<open>generate_perceptual_hash\<close>.\<close>

definition perceptual_hash_body :: "('arr, 'img) image_lib \<Rightarrow> 'arr \<Rightarrow> py_error + string" where
  "perceptual_hash_body lib image_array =
     (case (if \<not> is_uint8 lib image_array then times255_uint8 lib image_array
            else Inr image_array) of
        Inl e \<Rightarrow> Inl e
      | Inr arr \<Rightarrow>
          (case fromarray lib arr of
             Inl e \<Rightarrow> Inl e
           | Inr pil_image \<Rightarrow>
               (case average_hash lib pil_image of
                  Inl e \<Rightarrow> Inl e
                | Inr ahash \<Rightarrow>
                    (case phash lib pil_image of
                       Inl e \<Rightarrow> Inl e
                     | Inr phash_text \<Rightarrow>
                         (case dhash lib pil_image of
                            Inl e \<Rightarrow> Inl e
                          | Inr dhash_text \<Rightarrow>
                              Inr (ahash @ ''_'' @ phash_text @ ''_'' @ dhash_text))))))"

text \<open>\<open>generate_perceptual_hash\<close>: the handler \<open>except Exception\<close> prints a message
  and returns \<open>None\<close>.\<close>

definition generate_perceptual_hash ::
    "('arr, 'img) image_lib \<Rightarrow> 'arr \<Rightarrow> py_error + string option" where
  "generate_perceptual_hash lib image_array =
     (case perceptual_hash_body lib image_array of
        Inl e \<Rightarrow> Inr None
      | Inr fp \<Rightarrow> Inr (Some fp))"

definition generate_image_hash :: "('arr, 'img) image_lib \<Rightarrow> 'arr \<Rightarrow> string" where
  "generate_image_hash lib image_array = take 32 (sha256_base64 lib image_array)"

definition supported_formats :: "string list" where
  "supported_formats = [''.jpg'', ''.jpeg'', ''.png'', ''.bmp'', ''.tiff'', ''.webp'']"

definition check_image_format :: "('arr, 'img) image_lib \<Rightarrow> string \<Rightarrow> bool" where
  "check_image_format lib file_path =
     (str_lower lib (path_ext lib file_path) \<in> set supported_formats)"

text \<open>The conversion to RGB: \<open>image_array.shape[2]\<close> raises \<open>IndexError\<close> on an
  array with fewer than three dimensions.\<close>

definition convert_to_rgb :: "('arr, 'img) image_lib \<Rightarrow> 'arr \<Rightarrow> py_error + 'arr" where
  "convert_to_rgb lib image_array =
     (let shape = array_shape lib image_array in
      if length shape = 2 then gray2rgb lib image_array
      else if length shape < 3 then Inl IndexError
      else if shape ! 2 = 4 then rgba2rgb lib image_array
      else Inr image_array)"

text \<open>The three readings of \<open>datetime.now().isoformat()\<close> during one load.\<close>

record clock_reads =
  now_load :: string
  now_first_seen :: string
  now_location :: string

text \<open>
  What \<open>load_image_from_path\<close> prints about the similar images, after it has
  recorded the observation: one entry for each of \<open>similar_images[:3]\<close>, with the
  similarity, \<open>similar['data']['original_filename']\<close>,
  \<open>similar['data']['first_seen']\<close> and whether the line for a similarity above 95 is
  printed. \<open>similar['data']\<close> is the dictionary of the store itself, which
  \<open>add_to_fingerprint_database\<close> has changed in place by then, so the entry is read
  from the database as it is after that call.
\<close>

record match_report =
  rep_similarity :: rat
  rep_original_filename :: string
  rep_first_seen :: string
  rep_same_image :: bool

definition report_matches :: "database \<Rightarrow> similar_image list \<Rightarrow> match_report list" where
  "report_matches db similar_images =
     map (\<lambda>similar.
            (let data = (case map_of db (sim_id similar) of
                           None \<Rightarrow> sim_data similar
                         | Some r \<Rightarrow> r)
             in \<lparr>rep_similarity = similarity similar,
                 rep_original_filename = original_filename data,
                 rep_first_seen = first_seen data,
                 rep_same_image = (similarity similar > 95)\<rparr>))
         (take 3 similar_images)"

text \<open>
  The body of the \<open>try\<close> block of \<open>load_image_from_path\<close>. Its result is the new
  disk, the new processor, what it printed about the similar images, and either the
  exception or the returned pair \<open>(image_hash, image_info)\<close>. The list
  \<open>similar_images\<close> is a local variable: it is not returned. \<open>fingerprint[:32]\<close>
  in the report raises \<open>TypeError\<close> on \<open>None\<close>, before the similar images are
  printed.
\<close>

definition load_image_body ::
    "('arr, 'img) image_lib \<Rightarrow> storage_lib \<Rightarrow> io_faults \<Rightarrow> clock_reads \<Rightarrow> filesystem \<Rightarrow>
       'arr processor \<Rightarrow> string \<Rightarrow> string \<Rightarrow>
       filesystem \<times> 'arr processor \<times> match_report list \<times>
         (py_error + string \<times> 'arr image_info)" where
  "load_image_body lib slib faults clock fs st file_path content =
     (case image_open lib content of
        Inl e \<Rightarrow> (fs, st, [], Inl e)
      | Inr pil_image \<Rightarrow>
          (case convert_to_rgb lib (np_array lib pil_image) of
             Inl e \<Rightarrow> (fs, st, [], Inl e)
           | Inr image_array \<Rightarrow>
               (case generate_perceptual_hash lib image_array of
                  Inl e \<Rightarrow> (fs, st, [], Inl e)
                | Inr fp \<Rightarrow>
                    (case find_similar_images (fingerprint_database st) fp 90 of
                       Inl e \<Rightarrow> (fs, st, [], Inl e)
                     | Inr similar_images \<Rightarrow>
                         if getsize_fails faults then (fs, st, [], Inl OSError) else
                         (let image_info =
                                \<lparr>info_array = image_array,
                                 info_path = file_path,
                                 info_size = img_size lib pil_image,
                                 info_mode = img_mode lib pil_image,
                                 info_format =
                                   (case img_format lib pil_image of
                                      None \<Rightarrow> str_upper lib (drop 1 (path_ext lib file_path))
                                    | Some f \<Rightarrow>
                                        if f = [] then str_upper lib (drop 1 (path_ext lib file_path))
                                        else f),
                                 info_filename = path_basename lib file_path,
                                 info_fingerprint = fp,
                                 info_load_time = now_load clock,
                                 info_file_size = Some (int (length content))\<rparr>;
                              image_hash = generate_image_hash lib image_array;
                              st1 = st\<lparr>loaded_images := (loaded_images st)(image_hash \<mapsto> image_info)\<rparr>
                          in (case add_to_fingerprint_database slib faults (now_first_seen clock)
                                     (now_location clock) fs st1 fp image_info of
                                (fs2, st2, Inl e) \<Rightarrow> (fs2, st2, [], Inl e)
                              | (fs2, st2, Inr u) \<Rightarrow>
                                  (case fp of
                                     None \<Rightarrow> (fs2, st2, [], Inl TypeError)
                                   | Some f \<Rightarrow>
                                       (fs2, st2,
                                        report_matches (fingerprint_database st2) similar_images,
                                        Inr (image_hash, image_info)))))))))"

text \<open>\<open>load_image_from_path\<close>: the two checks before the \<open>try\<close> block raise
  directly; every exception of the block is raised again as \<open>Exception\<close>.\<close>

definition load_image_from_path ::
    "('arr, 'img) image_lib \<Rightarrow> storage_lib \<Rightarrow> io_faults \<Rightarrow> clock_reads \<Rightarrow> filesystem \<Rightarrow>
       'arr processor \<Rightarrow> string \<Rightarrow>
       filesystem \<times> 'arr processor \<times> match_report list \<times>
         (py_error + string \<times> 'arr image_info)" where
  "load_image_from_path lib slib faults clock fs st file_path =
     (case fs file_path of
        None \<Rightarrow> (fs, st, [], Inl FileNotFoundError)
      | Some content \<Rightarrow>
          if \<not> check_image_format lib file_path then (fs, st, [], Inl ValueError)
          else (case load_image_body lib slib faults clock fs st file_path content of
                  (fs', st', printed, Inl e) \<Rightarrow> (fs', st', printed, Inl (LoadFailed e))
                | (fs', st', printed, Inr r) \<Rightarrow> (fs', st', printed, Inr r)))"

section \<open>Auxiliary definitions and sample inputs\<close>

text \<open>Two abbreviations for stating results: the score of a record against a query
  (\<open>calculate_fingerprint_similarity\<close> never raises), and the dictionary that
  \<open>find_similar_images\<close> builds for an entry of the database.\<close>

definition score_of :: "string option \<Rightarrow> fingerprint_record \<Rightarrow> rat" where
  "score_of fp r =
     (case calculate_fingerprint_similarity fp (Some (fingerprint r)) of
        Inl e \<Rightarrow> 0
      | Inr s \<Rightarrow> s)"

definition as_match :: "string option \<Rightarrow> string \<times> fingerprint_record \<Rightarrow> similar_image" where
  "as_match fp entry =
     \<lparr>sim_id = fst entry, similarity = score_of fp (snd entry), sim_data = snd entry\<rparr>"

text \<open>A database of two records whose fingerprints both differ from \<open>ff_ff_ff\<close> in
  one character of one component. The record first seen later stands first.\<close>

definition early_record :: fingerprint_record where
  "early_record =
     \<lparr>fingerprint = ''fe_ff_ff'', original_filename = ''early.png'',
      first_seen = ''2024-01-01T10:00:00.000000'',
      locations = [\<lparr>loc_path = ''/img/early.png'', loc_filename = ''early.png'',
                    loc_timestamp = ''2024-01-01T10:00:00.000001'', loc_size = 10\<rparr>],
      count = 1\<rparr>"

definition late_record :: fingerprint_record where
  "late_record =
     \<lparr>fingerprint = ''ff_fe_ff'', original_filename = ''late.png'',
      first_seen = ''2024-02-01T10:00:00.000000'',
      locations = [\<lparr>loc_path = ''/img/late.png'', loc_filename = ''late.png'',
                    loc_timestamp = ''2024-02-01T10:00:00.000001'', loc_size = 20\<rparr>],
      count = 1\<rparr>"

definition tie_database :: database where
  "tie_database = [(''b7'', late_record), (''a3'', early_record)]"

text \<open>A sample array has a dtype, a shape and the text of its pixels.\<close>

datatype sample_dtype = Uint8 | Float64 | Unicode

record sample_array =
  arr_dtype :: sample_dtype
  arr_shape :: "nat list"
  arr_pixels :: string

text \<open>Stand-ins for the storage libraries and a small state, to run the model on
  concrete inputs: the digest is the text itself padded with zeros, the serialisation
  lists the identifiers, and only \<open>{}\<close> parses.\<close>

definition sample_storage_lib :: storage_lib where
  "sample_storage_lib =
     \<lparr>md5_hexdigest = (\<lambda>s. s @ ''00000000000000000000000000000000''),
      json_dump = (\<lambda>db. ''{'' @ concat (map fst db) @ ''}''),
      json_load = (\<lambda>s. if s = ''{}'' then Inr [] else Inl JSONDecodeError)\<rparr>"

definition no_faults :: io_faults where
  "no_faults =
     \<lparr>makedirs_fails = False, open_fails = False, write_fails = None,
      getsize_fails = False, rename_fails = False\<rparr>"

definition sample_processor :: "sample_array processor" where
  "sample_processor =
     \<lparr>storage_file = ''/data/image_fingerprints.json'',
      fingerprint_database = [],
      loaded_images = Map.empty\<rparr>"

text \<open>A disk that holds an earlier database, and one whose database file is no JSON
  document.\<close>

definition old_disk :: filesystem where
  "old_disk = [''/data/image_fingerprints.json'' \<mapsto> ''{old}'']"

definition corrupt_disk :: filesystem where
  "corrupt_disk = [''/data/image_fingerprints.json'' \<mapsto> ''{broken'']"

text \<open>The location entry that \<open>add_to_fingerprint_database\<close> appends.\<close>

definition location_of :: "string \<Rightarrow> 'arr image_info \<Rightarrow> location_entry" where
  "location_of t_loc image_info =
     \<lparr>loc_path = info_path image_info,
      loc_filename = info_filename image_info,
      loc_timestamp = t_loc,
      loc_size = (case info_file_size image_info of None \<Rightarrow> 0 | Some n \<Rightarrow> n)\<rparr>"

text \<open>In every record the counter equals the number of locations.\<close>

definition counts_match :: "database \<Rightarrow> bool" where
  "counts_match db = list_all (\<lambda>entry. count (snd entry) = int (length (locations (snd entry)))) db"

text \<open>The \<open>image_info\<close> of a sample image.\<close>

definition sample_info :: "sample_array image_info" where
  "sample_info =
     \<lparr>info_array = \<lparr>arr_dtype = Uint8, arr_shape = [1, 4, 3], arr_pixels = ''ff00''\<rparr>,
      info_path = ''/img/a.png'',
      info_size = (1, 4),
      info_mode = ''RGB'',
      info_format = ''PNG'',
      info_filename = ''a.png'',
      info_fingerprint = Some ''ff00_0f0f_1234'',
      info_load_time = ''2024-03-01T09:00:00.000000'',
      info_file_size = Some 4\<rparr>"

text \<open>Two calls for the sample image and one with the fingerprint \<open>None\<close>.\<close>

definition sample_call :: "sample_array add_call" where
  "sample_call =
     \<lparr>call_faults = no_faults,
      call_t_first = ''2024-03-01T09:00:00.000100'',
      call_t_loc = ''2024-03-01T09:00:00.000200'',
      call_fingerprint = Some ''ff00_0f0f_1234'',
      call_info = sample_info\<rparr>"

definition sample_calls :: "sample_array add_call list" where
  "sample_calls =
     [sample_call, sample_call\<lparr>call_fingerprint := None\<rparr>,
      sample_call\<lparr>call_t_loc := ''2024-03-02T09:00:00.000200''\<rparr>]"

text \<open>Stand-ins for the imaging libraries. An image is the text of its pixels and
  an image read from a file is an RGB array of one row. An array of text cannot be
  rescaled. As with \<open>Image.fromarray\<close>, a \<open>uint8\<close> array becomes an image when it
  has one or two dimensions, or three with 2, 3 or 4 channels, and raises \<open>TypeError\<close>
  otherwise. The average hash is the pixel text and the other two hashes are constant;
  the extension is the last four characters of a path and the base name is what
  follows the last slash.\<close>

definition sample_image_lib :: "(sample_array, string) image_lib" where
  "sample_image_lib =
     \<lparr>image_open = (\<lambda>content. if content = [] then Inl OSError else Inr content),
      img_size = (\<lambda>img. (1, length img)),
      img_mode = (\<lambda>img. ''RGB''),
      img_format = (\<lambda>img. Some ''PNG''),
      np_array = (\<lambda>img. \<lparr>arr_dtype = Uint8, arr_shape = [1, length img, 3], arr_pixels = img\<rparr>),
      array_shape = arr_shape,
      gray2rgb = (\<lambda>a. Inr (a\<lparr>arr_shape := arr_shape a @ [3]\<rparr>)),
      rgba2rgb = (\<lambda>a. Inr (a\<lparr>arr_shape := take 2 (arr_shape a) @ [3]\<rparr>)),
      is_uint8 = (\<lambda>a. arr_dtype a = Uint8),
      times255_uint8 =
        (\<lambda>a. if arr_dtype a = Unicode then Inl TypeError else Inr (a\<lparr>arr_dtype := Uint8\<rparr>)),
      fromarray =
        (\<lambda>a. if arr_dtype a = Uint8 \<and>
                 (length (arr_shape a) = 1 \<or> length (arr_shape a) = 2 \<or>
                  (length (arr_shape a) = 3 \<and> 2 \<le> arr_shape a ! 2 \<and> arr_shape a ! 2 \<le> 4))
              then Inr (arr_pixels a) else Inl TypeError),
      average_hash = Inr,
      phash = (\<lambda>img. Inr ''0f0f''),
      dhash = (\<lambda>img. Inr ''1234''),
      sha256_base64 = arr_pixels,
      path_ext = (\<lambda>p. drop (length p - 4) p),
      path_basename = (\<lambda>p. rev (takeWhile (\<lambda>c. c \<noteq> CHR ''/'') (rev p))),
      str_lower = (\<lambda>s. s),
      str_upper = (\<lambda>s. s)\<rparr>"

text \<open>A \<open>uint8\<close> array of two by two pixels with five channels, the same array as
  \<open>float64\<close>, and an array of text.\<close>

definition five_channels :: sample_array where
  "five_channels =
     \<lparr>arr_dtype = Uint8, arr_shape = [2, 2, 5], arr_pixels = ''00000000000000000000''\<rparr>"

definition five_channels_float :: sample_array where
  "five_channels_float = five_channels\<lparr>arr_dtype := Float64\<rparr>"

definition text_array :: sample_array where
  "text_array = \<lparr>arr_dtype = Unicode, arr_shape = [1, 1], arr_pixels = ''a''\<rparr>"

text \<open>The identifier under which \<open>add_to_fingerprint_database\<close> files a
  fingerprint.\<close>

definition record_id :: "storage_lib \<Rightarrow> string \<Rightarrow> string" where
  "record_id slib f = take 16 (md5_hexdigest slib f)"

text \<open>A disk with one image, and two loads of it one after the other.\<close>

definition sample_clock :: clock_reads where
  "sample_clock =
     \<lparr>now_load = ''2024-03-01T09:00:00.000000'',
      now_first_seen = ''2024-03-01T09:00:00.000100'',
      now_location = ''2024-03-01T09:00:00.000200''\<rparr>"

definition image_disk :: filesystem where
  "image_disk = [''/img/a.png'' \<mapsto> ''ff00'']"

definition first_load ::
    "filesystem \<times> sample_array processor \<times> match_report list \<times>
       (py_error + string \<times> sample_array image_info)" where
  "first_load =
     load_image_from_path sample_image_lib sample_storage_lib no_faults sample_clock
       image_disk sample_processor ''/img/a.png''"

definition second_load ::
    "filesystem \<times> sample_array processor \<times> match_report list \<times>
       (py_error + string \<times> sample_array image_info)" where
  "second_load =
     load_image_from_path sample_image_lib sample_storage_lib no_faults sample_clock
       (fst first_load) (fst (snd first_load)) ''/img/a.png''"

section \<open>Properties of the similarity score\<close>

lemma py_split_nonempty: "py_split sep s \<noteq> []"
  by (induction s) (auto split: list.splits)

lemma distance_sym: "distance p1 p2 = distance p2 p1"
proof (induction p1 arbitrary: p2)
  case Nil
  then show ?case by (simp add: distance_def)
next
  case (Cons c cs)
  then show ?case by (cases p2) (auto simp: distance_def)
qed

lemma distance_refl: "distance p p = 0"
  by (induction p) (auto simp: distance_def)

lemma mismatches_le_length:
  "sum_list (map (\<lambda>(c1, c2). if c1 \<noteq> c2 then (1::nat) else 0) xs) \<le> length xs"
  by (induction xs) auto

lemma distance_le_max: "distance p1 p2 \<le> max (length p1) (length p2)"
proof -
  have "distance p1 p2 \<le> length (zip p1 p2)"
    unfolding distance_def by (rule mismatches_le_length)
  then have "distance p1 p2 \<le> min (length p1) (length p2)" by simp
  then show ?thesis by linarith
qed

lemma similarity_loop_sym:
  "similarity_loop (zip ps qs) acc = similarity_loop (zip qs ps) acc"
proof (induction ps arbitrary: qs acc)
  case Nil
  then show ?case by simp
next
  case (Cons p ps)
  show ?case
  proof (cases qs)
    case Nil
    then show ?thesis by simp
  next
    case (Cons q qs')
    then show ?thesis
      using Cons.IH [of qs'] by (simp add: distance_sym max.commute Let_def)
  qed
qed

lemma similarity_body_sym: "similarity_body fp1 fp2 = similarity_body fp2 fp1"
  by (cases fp1; cases fp2) (simp_all add: similarity_body_def similarity_loop_sym)

lemma similarity_loop_refl:
  "list_all (\<lambda>p. p \<noteq> []) ps \<Longrightarrow>
   similarity_loop (zip ps ps) acc = Inr (acc @ replicate (length ps) 100)"
proof (induction ps arbitrary: acc)
  case Nil
  then show ?case by simp
next
  case (Cons p ps)
  then show ?case
    by (simp add: distance_refl Let_def replicate_app_Cons_same)
qed

lemma sum_list_replicate_rat: "sum_list (replicate n (c::rat)) = rat_of_nat n * c"
  by (induction n) (simp_all add: algebra_simps)

lemma similarity_body_refl:
  assumes "valid_fingerprint f"
  shows "similarity_body (Some f) (Some f) = Inr 100"
proof -
  let ?ps = "py_split CHR ''_'' f"
  have loop: "similarity_loop (zip ?ps ?ps) [] = Inr (replicate (length ?ps) 100)"
    using assms similarity_loop_refl [of ?ps "[]"] by (simp add: valid_fingerprint_def)
  have pos: "length ?ps \<noteq> 0"
    using py_split_nonempty [of "CHR ''_''" f] by simp
  show ?thesis
    using pos by (simp add: similarity_body_def loop sum_list_replicate_rat)
qed

text \<open>
  Claim C9. The similarity score is symmetric, \<open>score(a, b) = score(b, a)\<close>, for every
  pair of arguments, and reflexive, \<open>score(f, f) = 100\<close>, for every valid fingerprint
  \<open>f\<close> (one without an empty component).
\<close>

theorem similarity_symmetric_reflexive:
  "calculate_fingerprint_similarity a b = calculate_fingerprint_similarity b a \<and>
   (valid_fingerprint f \<longrightarrow>
      calculate_fingerprint_similarity (Some f) (Some f) = Inr 100)"
  by (simp add: calculate_fingerprint_similarity_def similarity_body_sym [of a b]
      similarity_body_refl)

theorem similarity_symmetric_reflexive_witness:
  "calculate_fingerprint_similarity (Some ''ff00_0f0f_1234'') (Some ''ff01_0f0f_1230'')
     = calculate_fingerprint_similarity (Some ''ff01_0f0f_1230'') (Some ''ff00_0f0f_1234'') \<and>
   valid_fingerprint ''ff00_0f0f_1234'' \<and>
   calculate_fingerprint_similarity (Some ''ff00_0f0f_1234'') (Some ''ff00_0f0f_1234'') = Inr 100"
proof -
  have v: "valid_fingerprint ''ff00_0f0f_1234''"
    by (simp add: valid_fingerprint_def)
  show ?thesis
    using v similarity_symmetric_reflexive
      [of "Some ''ff00_0f0f_1234''" "Some ''ff01_0f0f_1230''" "''ff00_0f0f_1234''"]
    by simp
qed

subsection \<open>The score never fails and lies between 0 and 100\<close>

lemma sum_list_bounds:
  "\<forall>x\<in>set xs. 0 \<le> x \<and> x \<le> (100::rat) \<Longrightarrow>
   0 \<le> sum_list xs \<and> sum_list xs \<le> rat_of_nat (length xs) * 100"
  by (induction xs) (auto simp: algebra_simps)

lemma component_range:
  assumes "0 < m" "d \<le> m"
  shows "0 \<le> (1 - rat_of_nat d / rat_of_nat m) * 100 \<and>
         (1 - rat_of_nat d / rat_of_nat m) * 100 \<le> 100"
proof -
  have q1: "rat_of_nat d / rat_of_nat m \<le> 1" using assms by (simp add: divide_le_eq)
  have q0: "0 \<le> rat_of_nat d / rat_of_nat m" by simp
  have "0 \<le> (1 - q) * 100 \<and> (1 - q) * 100 \<le> 100" if "0 \<le> q" "q \<le> 1" for q :: rat
    using that by (simp add: algebra_simps)
  from this [OF q0 q1] show ?thesis .
qed

lemma similarity_loop_range:
  "similarity_loop pairs acc = Inr sims \<Longrightarrow>
   \<forall>x\<in>set acc. 0 \<le> x \<and> x \<le> 100 \<Longrightarrow>
   \<forall>x\<in>set sims. 0 \<le> x \<and> x \<le> 100"
proof (induction pairs acc rule: similarity_loop.induct)
  case (1 similarities)
  then show ?case by simp
next
  case (2 p1 p2 rest similarities)
  let ?m = "max (length p1) (length p2)"
  have nz: "?m \<noteq> 0"
  proof
    assume "?m = 0"
    then have "similarity_loop ((p1, p2) # rest) similarities = Inl ZeroDivisionError"
      by (simp only: similarity_loop.simps Let_def refl if_True)
    with "2.prems"(1) show False by simp
  qed
  then have pos: "0 < ?m" by (simp only: neq0_conv)
  from "2.prems"(1) nz have run:
    "similarity_loop rest
       (similarities @ [(1 - rat_of_nat (distance p1 p2) / rat_of_nat ?m) * 100]) = Inr sims"
    by (simp only: similarity_loop.simps Let_def if_False)
  have "\<forall>x\<in>set (similarities @ [(1 - rat_of_nat (distance p1 p2) / rat_of_nat ?m) * 100]).
          0 \<le> x \<and> x \<le> 100"
    using "2.prems"(2) component_range [OF pos distance_le_max [of p1 p2]] by auto
  with "2.IH" [OF refl nz run] show ?case .
qed

lemma similarity_body_range:
  assumes "similarity_body fp1 fp2 = Inr s"
  shows "0 \<le> s \<and> s \<le> 100"
proof -
  from assms obtain s1 s2 sims where
    loop: "similarity_loop (zip (py_split CHR ''_'' s1) (py_split CHR ''_'' s2)) [] = Inr sims"
    and ne: "length sims \<noteq> 0"
    and s: "s = sum_list sims / rat_of_nat (length sims)"
    by (auto simp: similarity_body_def split: option.splits sum.splits if_splits)
  have "\<forall>x\<in>set sims. 0 \<le> x \<and> x \<le> 100"
    using similarity_loop_range [OF loop] by simp
  then have b: "0 \<le> sum_list sims \<and> sum_list sims \<le> rat_of_nat (length sims) * 100"
    by (rule sum_list_bounds)
  have n: "0 < rat_of_nat (length sims)" using ne by simp
  show ?thesis using b n unfolding s by (simp add: divide_le_eq mult.commute)
qed

lemma similarity_range:
  "\<exists>s. calculate_fingerprint_similarity fp1 fp2 = Inr s \<and> 0 \<le> s \<and> s \<le> 100"
proof (cases "similarity_body fp1 fp2")
  case (Inl e)
  then show ?thesis by (simp add: calculate_fingerprint_similarity_def)
next
  case (Inr s)
  then show ?thesis
    using similarity_body_range [OF Inr] by (simp add: calculate_fingerprint_similarity_def)
qed

lemma py_split_append:
  "py_split sep (s @ sep # t) = py_split sep s @ py_split sep t"
proof (induction s)
  case Nil
  then show ?case by simp
next
  case (Cons c s)
  then show ?case
    using py_split_nonempty [of sep s] by (cases "py_split sep s") auto
qed

lemma surplus_components_ignored:
  assumes "length (py_split CHR ''_'' s2) \<le> length (py_split CHR ''_'' s1)"
  shows "calculate_fingerprint_similarity (Some (s1 @ CHR ''_'' # extra)) (Some s2) =
         calculate_fingerprint_similarity (Some s1) (Some s2)"
  using assms
  by (simp add: calculate_fingerprint_similarity_def similarity_body_def py_split_append
      zip_append1)

text \<open>
  Claim C1, as the code has it. The claim asks for a \<open>ShapeMismatchError\<close> on
  fingerprints of different shapes; the code has no such check. Scoring never fails:
  for every pair of arguments it returns a score between 0 and 100, and the components
  that the longer fingerprint has beyond the shorter one are not compared.
\<close>

theorem similarity_never_fails:
  "(\<exists>s. calculate_fingerprint_similarity fp1 fp2 = Inr s \<and> 0 \<le> s \<and> s \<le> 100) \<and>
   (length (py_split CHR ''_'' s2) \<le> length (py_split CHR ''_'' s1) \<longrightarrow>
      calculate_fingerprint_similarity (Some (s1 @ CHR ''_'' # extra)) (Some s2) =
      calculate_fingerprint_similarity (Some s1) (Some s2))"
  using similarity_range [of fp1 fp2] surplus_components_ignored [of s2 s1 extra]
  by blast

theorem similarity_never_fails_witness:
  "length (py_split CHR ''_'' ''ab'') \<le> length (py_split CHR ''_'' ''ab'') \<and>
   calculate_fingerprint_similarity (Some (''ab'' @ CHR ''_'' # ''cd'')) (Some ''ab'') =
   calculate_fingerprint_similarity (Some ''ab'') (Some ''ab'') \<and>
   (\<exists>s. calculate_fingerprint_similarity (Some ''ab_cd'') (Some ''ab'') = Inr s \<and>
        0 \<le> s \<and> s \<le> 100)"
proof -
  have len: "length (py_split CHR ''_'' ''ab'') \<le> length (py_split CHR ''_'' ''ab'')"
    by simp
  from similarity_never_fails [of "Some ''ab_cd''" "Some ''ab''" "''ab''" "''ab''" "''cd''"] len
  show ?thesis by blast
qed

text \<open>Two components against one, and a component of two characters against one of
  four: both calls return the score 100.\<close>

theorem similarity_shape_mismatch_counterexample:
  "calculate_fingerprint_similarity (Some ''ab_cd'') (Some ''ab'') = Inr 100 \<and>
   calculate_fingerprint_similarity (Some ''ab'') (Some ''abcd'') = Inr 100"
  by (simp add: calculate_fingerprint_similarity_def similarity_body_def distance_def)

section \<open>Properties of the query\<close>

lemma score_of_eq: "calculate_fingerprint_similarity fp (Some (fingerprint r)) = Inr (score_of fp r)"
  using similarity_range [of fp "Some (fingerprint r)"] by (auto simp: score_of_def)

lemma score_of_range: "0 \<le> score_of fp r \<and> score_of fp r \<le> 100"
  using similarity_range [of fp "Some (fingerprint r)"] by (auto simp: score_of_def)

lemma scan_database_eq:
  "scan_database fp th db acc =
     Inr (acc @ map (as_match fp) (filter (\<lambda>e. th \<le> score_of fp (snd e)) db))"
proof (induction db arbitrary: acc)
  case Nil
  then show ?case by simp
next
  case (Cons entry db)
  obtain i r where entry: "entry = (i, r)" by (cases entry)
  show ?case
    unfolding entry by (simp add: score_of_eq Cons.IH as_match_def)
qed

lemma find_similar_images_eq:
  "find_similar_images db fp th =
     Inr (sort_key (\<lambda>x. - similarity x)
            (map (as_match fp) (filter (\<lambda>e. th \<le> score_of fp (snd e)) db)))"
  by (simp add: find_similar_images_def scan_database_eq)

lemma descending_sort_key:
  "sorted_wrt (\<lambda>a b. similarity b \<le> similarity a) (sort_key (\<lambda>x. - similarity x) xs)"
proof -
  have "sorted (map (\<lambda>x. - similarity x) (sort_key (\<lambda>x. - similarity x) xs))"
    by (rule sorted_sort_key)
  then show ?thesis by (simp add: sorted_wrt_map)
qed

lemma ties_keep_order:
  "filter (\<lambda>m. similarity m = s) (sort_key (\<lambda>x. - similarity x) xs) =
   filter (\<lambda>m. similarity m = s) xs"
  using sort_key_stable [of "\<lambda>x. - similarity x" "- s" xs] by simp

text \<open>
  Claim C7, as the code has it. \<open>find_similar_images\<close> returns exactly the records
  whose score reaches the threshold, in descending order of similarity; records of
  equal similarity stay in the order in which the database holds them (the sort is
  stable and has no further key). The result is a function of the database and the
  query, so two calls on the same database return the same sequence.
\<close>

theorem find_similar_order:
  "\<exists>ms. find_similar_images db fp th = Inr ms \<and>
        sorted_wrt (\<lambda>a b. similarity b \<le> similarity a) ms \<and>
        set ms = set (map (as_match fp) (filter (\<lambda>e. th \<le> score_of fp (snd e)) db)) \<and>
        (\<forall>s. filter (\<lambda>m. similarity m = s) ms =
              map (as_match fp)
                (filter (\<lambda>e. th \<le> score_of fp (snd e) \<and> score_of fp (snd e) = s) db))"
proof -
  let ?cands = "map (as_match fp) (filter (\<lambda>e. th \<le> score_of fp (snd e)) db)"
  let ?ms = "sort_key (\<lambda>x. - similarity x) ?cands"
  have 1: "find_similar_images db fp th = Inr ?ms" by (rule find_similar_images_eq)
  have 2: "sorted_wrt (\<lambda>a b. similarity b \<le> similarity a) ?ms" by (rule descending_sort_key)
  have 3: "set ?ms = set ?cands" by simp
  have 4: "filter (\<lambda>m. similarity m = s) ?ms =
           map (as_match fp)
             (filter (\<lambda>e. th \<le> score_of fp (snd e) \<and> score_of fp (snd e) = s) db)" for s
  proof -
    have "filter (\<lambda>m. similarity m = s) ?ms = filter (\<lambda>m. similarity m = s) ?cands"
      by (rule ties_keep_order)
    also have "\<dots> = map (as_match fp)
             (filter (\<lambda>e. th \<le> score_of fp (snd e) \<and> score_of fp (snd e) = s) db)"
      by (simp add: filter_map o_def as_match_def conj_commute)
    finally show ?thesis .
  qed
  from 1 2 3 4 show ?thesis by blast
qed

text \<open>Two records of equal similarity: the one first seen in February, with the
  greater identifier, comes before the one first seen in January.\<close>

theorem find_similar_tie_order_counterexample:
  "find_similar_images tie_database (Some ''ff_ff_ff'') 80 =
     Inr [\<lparr>sim_id = ''b7'', similarity = 250 / 3, sim_data = late_record\<rparr>,
          \<lparr>sim_id = ''a3'', similarity = 250 / 3, sim_data = early_record\<rparr>] \<and>
   first_seen late_record = ''2024-02-01T10:00:00.000000'' \<and>
   first_seen early_record = ''2024-01-01T10:00:00.000000''"
  by (simp add: find_similar_images_def tie_database_def late_record_def early_record_def
      calculate_fingerprint_similarity_def similarity_body_def distance_def)

text \<open>
  Claim C8, as the code has it. \<open>find_similar_images\<close> does not validate the
  threshold and never fails: on an empty database the result is empty for every
  threshold, a threshold above 100 gives the empty result, and a threshold of 0 or
  below gives every record of the database.
\<close>

theorem find_similar_threshold:
  "find_similar_images [] fp th = Inr [] \<and>
   (\<exists>ms. find_similar_images db fp th = Inr ms) \<and>
   (100 < th \<longrightarrow> find_similar_images db fp th = Inr []) \<and>
   (th \<le> 0 \<longrightarrow>
      (\<exists>ms. find_similar_images db fp th = Inr ms \<and> length ms = length db \<and>
            set (map sim_id ms) = set (map fst db)))"
proof -
  have a: "find_similar_images [] fp th = Inr []" by (simp add: find_similar_images_eq)
  have b: "\<exists>ms. find_similar_images db fp th = Inr ms" by (simp add: find_similar_images_eq)
  have c: "find_similar_images db fp th = Inr []" if "100 < th"
  proof -
    have "\<not> th \<le> score_of fp r" for r
      using score_of_range [of fp r] that by simp
    then show ?thesis by (simp add: find_similar_images_eq)
  qed
  have d: "\<exists>ms. find_similar_images db fp th = Inr ms \<and> length ms = length db \<and>
            set (map sim_id ms) = set (map fst db)" if "th \<le> 0"
  proof -
    have "th \<le> score_of fp r" for r
      using score_of_range [of fp r] that by simp
    then have "find_similar_images db fp th =
        Inr (sort_key (\<lambda>x. - similarity x) (map (as_match fp) db))"
      by (simp add: find_similar_images_eq)
    moreover have "sim_id \<circ> as_match fp = fst" by (auto simp: as_match_def)
    ultimately show ?thesis by (simp add: image_image as_match_def)
  qed
  from a b c d show ?thesis by blast
qed

theorem find_similar_threshold_witness:
  "(100::rat) < 101 \<and> find_similar_images tie_database (Some ''ff_ff_ff'') 101 = Inr [] \<and>
   (- 5::rat) \<le> 0 \<and>
   (\<exists>ms. find_similar_images tie_database (Some ''ff_ff_ff'') (- 5) = Inr ms \<and>
         length ms = length tie_database \<and>
         set (map sim_id ms) = set (map fst tie_database)) \<and>
   find_similar_images [] (Some ''ff_ff_ff'') 101 = Inr []"
proof -
  have h1: "(100::rat) < 101" by simp
  have h2: "(- 5::rat) \<le> 0" by simp
  from find_similar_threshold [of "Some ''ff_ff_ff''" 101 tie_database] h1
    find_similar_threshold [of "Some ''ff_ff_ff''" "- 5" tie_database] h2
  show ?thesis by blast
qed

text \<open>Thresholds \<open>-5\<close> and \<open>101\<close>: both calls return a list.\<close>

theorem find_similar_threshold_counterexample:
  "find_similar_images tie_database (Some ''ff_ff_ff'') (- 5) =
     Inr [\<lparr>sim_id = ''b7'', similarity = 250 / 3, sim_data = late_record\<rparr>,
          \<lparr>sim_id = ''a3'', similarity = 250 / 3, sim_data = early_record\<rparr>] \<and>
   find_similar_images tie_database (Some ''ff_ff_ff'') 101 = Inr []"
  by (simp add: find_similar_images_def tie_database_def late_record_def early_record_def
      calculate_fingerprint_similarity_def similarity_body_def distance_def)

section \<open>Properties of saving and loading\<close>

text \<open>\<open>save_fingerprint_database\<close>, by the fault that occurs.\<close>

lemma save_cases:
  "save_fingerprint_database lib faults fs st =
     (if makedirs_fails faults \<or> open_fails faults then (fs, Inr False)
      else (case write_fails faults of
              None \<Rightarrow> (fs(storage_file st \<mapsto> json_dump lib (fingerprint_database st)), Inr True)
            | Some n \<Rightarrow>
                (fs(storage_file st \<mapsto> take n (json_dump lib (fingerprint_database st))),
                 Inr False)))"
  by (simp add: save_fingerprint_database_def os_makedirs_def open_write_def file_write_def
      split: option.splits)

text \<open>
  Claim C3, as the code has it. \<open>save_fingerprint_database\<close> never raises; it
  returns \<open>False\<close> exactly when a step of it fails. The file is written in place: when
  creating the directory or opening the file fails the disk is as before, but when
  writing fails the storage path itself holds only the part of the new text that was
  written, and the content persisted before is gone.
\<close>

theorem save_failure_behaviour:
  "\<exists>fs' ok. save_fingerprint_database lib faults fs st = (fs', Inr ok) \<and>
      (ok \<longleftrightarrow> \<not> makedirs_fails faults \<and> \<not> open_fails faults \<and> write_fails faults = None) \<and>
      (makedirs_fails faults \<or> open_fails faults \<longrightarrow> fs' = fs) \<and>
      (\<not> makedirs_fails faults \<and> \<not> open_fails faults \<longrightarrow>
         (\<forall>n. write_fails faults = Some n \<longrightarrow>
            fs' = fs(storage_file st \<mapsto> take n (json_dump lib (fingerprint_database st)))))"
  by (cases "write_fails faults") (auto simp: save_cases)

theorem save_failure_behaviour_witness:
  "(\<exists>fs'. save_fingerprint_database sample_storage_lib (no_faults\<lparr>open_fails := True\<rparr>)
            old_disk sample_processor = (fs', Inr False) \<and> fs' = old_disk) \<and>
   (\<exists>fs'. save_fingerprint_database sample_storage_lib (no_faults\<lparr>write_fails := Some 1\<rparr>)
            old_disk sample_processor = (fs', Inr False) \<and>
          fs' = old_disk(''/data/image_fingerprints.json'' \<mapsto> ''{''))"
proof -
  have a: "open_fails (no_faults\<lparr>open_fails := True\<rparr>)" by simp
  have b: "\<not> makedirs_fails (no_faults\<lparr>write_fails := Some 1\<rparr>) \<and>
           \<not> open_fails (no_faults\<lparr>write_fails := Some 1\<rparr>) \<and>
           write_fails (no_faults\<lparr>write_fails := Some 1\<rparr>) = Some 1"
    by (simp add: no_faults_def)
  have c: "take 1 (json_dump sample_storage_lib (fingerprint_database sample_processor)) = ''{''"
    by (simp add: sample_storage_lib_def sample_processor_def)
  have d: "storage_file sample_processor = ''/data/image_fingerprints.json''"
    by (simp add: sample_processor_def)
  from save_failure_behaviour
         [of sample_storage_lib "no_faults\<lparr>open_fails := True\<rparr>" old_disk sample_processor] a
  have 1: "\<exists>fs'. save_fingerprint_database sample_storage_lib (no_faults\<lparr>open_fails := True\<rparr>)
            old_disk sample_processor = (fs', Inr False) \<and> fs' = old_disk"
    by auto
  from save_failure_behaviour
         [of sample_storage_lib "no_faults\<lparr>write_fails := Some 1\<rparr>" old_disk sample_processor] b
  have 2: "\<exists>fs'. save_fingerprint_database sample_storage_lib (no_faults\<lparr>write_fails := Some 1\<rparr>)
            old_disk sample_processor = (fs', Inr False) \<and>
          fs' = old_disk(''/data/image_fingerprints.json'' \<mapsto> ''{'')"
    by (auto simp: sample_storage_lib_def sample_processor_def)
  from 1 2 show ?thesis by blast
qed

text \<open>A write that fails before any character reaches the disk: the call returns
  \<open>False\<close> and the storage file, which held \<open>{old}\<close>, is empty.\<close>

theorem save_truncates_counterexample:
  "old_disk ''/data/image_fingerprints.json'' = Some ''{old}'' \<and>
   snd (save_fingerprint_database sample_storage_lib (no_faults\<lparr>write_fails := Some 0\<rparr>)
          old_disk sample_processor) = Inr False \<and>
   fst (save_fingerprint_database sample_storage_lib (no_faults\<lparr>write_fails := Some 0\<rparr>)
          old_disk sample_processor) ''/data/image_fingerprints.json'' = Some []"
  by (simp add: save_cases no_faults_def old_disk_def sample_processor_def)

text \<open>
  Claim C6. When the storage file exists and \<open>json.load\<close> raises on its content,
  \<open>load_fingerprint_database\<close> returns normally with an empty database; the file
  is moved to the path with the suffix \<open>.backup\<close>, and when the rename fails the
  disk is left as it is and the call still returns with an empty database.
\<close>

theorem load_corrupt_recovers:
  assumes "fs (storage_file st) = Some content"
    and "json_load lib content = Inl e"
  shows "load_fingerprint_database lib faults fs st =
           ((if rename_fails faults then fs
             else (fs(storage_file st := None))(storage_file st @ ''.backup'' \<mapsto> content)),
            st\<lparr>fingerprint_database := []\<rparr>, Inr PyNone)"
  using assms
  by (auto simp: load_fingerprint_database_def read_file_def os_rename_def)

theorem load_corrupt_recovers_witness:
  "corrupt_disk (storage_file sample_processor) = Some ''{broken'' \<and>
   json_load sample_storage_lib ''{broken'' = Inl JSONDecodeError \<and>
   load_fingerprint_database sample_storage_lib no_faults corrupt_disk sample_processor =
     ([''/data/image_fingerprints.json.backup'' \<mapsto> ''{broken''],
      sample_processor, Inr PyNone) \<and>
   load_fingerprint_database sample_storage_lib (no_faults\<lparr>rename_fails := True\<rparr>)
       corrupt_disk sample_processor =
     (corrupt_disk, sample_processor, Inr PyNone)"
proof -
  have a: "corrupt_disk (storage_file sample_processor) = Some ''{broken''"
    by (simp add: corrupt_disk_def sample_processor_def)
  have b: "json_load sample_storage_lib ''{broken'' = Inl JSONDecodeError"
    by (simp add: sample_storage_lib_def)
  have c: "sample_processor\<lparr>fingerprint_database := []\<rparr> = sample_processor"
    by (simp add: sample_processor_def)
  have d: "(corrupt_disk(storage_file sample_processor := None))
             (storage_file sample_processor @ ''.backup'' \<mapsto> ''{broken'') =
           [''/data/image_fingerprints.json.backup'' \<mapsto> ''{broken'']"
    by (auto simp: corrupt_disk_def sample_processor_def)
  from load_corrupt_recovers
         [where fs = corrupt_disk and st = sample_processor and lib = sample_storage_lib
            and faults = no_faults, OF a b]
       load_corrupt_recovers
         [where fs = corrupt_disk and st = sample_processor and lib = sample_storage_lib
            and faults = "no_faults\<lparr>rename_fails := True\<rparr>", OF a b] a b
  show ?thesis
    by (simp add: c d no_faults_def)
qed

section \<open>Properties of recording an observation\<close>

lemma map_of_dict_set: "map_of (dict_set db k v) = (map_of db)(k \<mapsto> v)"
  by (induction db k v rule: dict_set.induct) auto

text \<open>\<open>add_to_fingerprint_database\<close> on a fingerprint that is a string, in one
  equation.\<close>

lemma add_to_fingerprint_database_eq:
  "add_to_fingerprint_database lib faults t_first t_loc fs st (Some f) image_info =
     (let fp_id = take 16 (md5_hexdigest lib f);
          r = (case map_of (fingerprint_database st) fp_id of
                 None \<Rightarrow> \<lparr>fingerprint = f, original_filename = info_filename image_info,
                           first_seen = t_first, locations = [], count = 0\<rparr>
               | Some r0 \<Rightarrow> r0);
          db1 = (case map_of (fingerprint_database st) fp_id of
                   None \<Rightarrow> dict_set (fingerprint_database st) fp_id r
                 | Some r0 \<Rightarrow> fingerprint_database st);
          st' = st\<lparr>fingerprint_database :=
                    dict_set db1 fp_id
                      (r\<lparr>locations := locations r @ [location_of t_loc image_info],
                         count := count r + 1\<rparr>)\<rparr>
      in (fst (save_fingerprint_database lib faults fs st'), st', Inr PyNone))"
  by (cases "map_of (fingerprint_database st) (take 16 (md5_hexdigest lib f))")
     (simp_all add: add_to_fingerprint_database_def Let_def map_of_dict_set location_of_def
        split: prod.splits)

text \<open>
  Claim C5, as the code has it. For every call of \<open>add_to_fingerprint_database\<close>
  with a fingerprint \<open>f\<close>: the identifier is the first 16 characters of the MD5 digest
  of \<open>f\<close>; when the identifier is new, the database afterwards holds under it a record
  with count 1 and the one new location; when it is present, the new location is
  appended to its record and the count is one more; no other record changes; the disk
  afterwards is what \<open>save_fingerprint_database\<close> leaves for the new database; and
  the call returns \<open>None\<close>: the identifier is not returned.
\<close>

theorem add_records_observation:
  assumes "fp = Some f"
  shows "\<exists>fs' st'.
      add_to_fingerprint_database lib faults t_first t_loc fs st fp image_info =
        (fs', st', Inr PyNone) \<and>
      map_of (fingerprint_database st') (take 16 (md5_hexdigest lib f)) =
        (case map_of (fingerprint_database st) (take 16 (md5_hexdigest lib f)) of
           None \<Rightarrow>
             Some \<lparr>fingerprint = f, original_filename = info_filename image_info,
                   first_seen = t_first, locations = [location_of t_loc image_info],
                   count = 1\<rparr>
         | Some r \<Rightarrow>
             Some (r\<lparr>locations := locations r @ [location_of t_loc image_info],
                     count := count r + 1\<rparr>)) \<and>
      (\<forall>k. k \<noteq> take 16 (md5_hexdigest lib f) \<longrightarrow>
           map_of (fingerprint_database st') k = map_of (fingerprint_database st) k) \<and>
      fs' = fst (save_fingerprint_database lib faults fs st')"
  unfolding assms add_to_fingerprint_database_eq
  by (cases "map_of (fingerprint_database st) (take 16 (md5_hexdigest lib f))")
     (simp_all add: Let_def map_of_dict_set)

theorem add_records_observation_witness:
  "Some ''ff00_0f0f_1234'' = Some ''ff00_0f0f_1234'' \<and>
   (\<exists>fs' st'.
      add_to_fingerprint_database sample_storage_lib no_faults ''2024-03-01T09:00:00.000100''
          ''2024-03-01T09:00:00.000200'' Map.empty sample_processor
          (Some ''ff00_0f0f_1234'') sample_info = (fs', st', Inr PyNone) \<and>
      map_of (fingerprint_database st') ''ff00_0f0f_123400'' =
        Some \<lparr>fingerprint = ''ff00_0f0f_1234'', original_filename = ''a.png'',
              first_seen = ''2024-03-01T09:00:00.000100'',
              locations = [\<lparr>loc_path = ''/img/a.png'', loc_filename = ''a.png'',
                            loc_timestamp = ''2024-03-01T09:00:00.000200'', loc_size = 4\<rparr>],
              count = 1\<rparr>)"
proof -
  have id: "take 16 (md5_hexdigest sample_storage_lib ''ff00_0f0f_1234'') = ''ff00_0f0f_123400''"
    by (simp add: sample_storage_lib_def)
  have new: "map_of (fingerprint_database sample_processor) ''ff00_0f0f_123400'' = None"
    by (simp add: sample_processor_def)
  have loc: "location_of ''2024-03-01T09:00:00.000200'' sample_info =
      \<lparr>loc_path = ''/img/a.png'', loc_filename = ''a.png'',
       loc_timestamp = ''2024-03-01T09:00:00.000200'', loc_size = 4\<rparr>"
    by (simp add: location_of_def sample_info_def)
  have name: "info_filename sample_info = ''a.png''"
    by (simp add: sample_info_def)
  from add_records_observation
         [OF refl, of sample_storage_lib no_faults "''2024-03-01T09:00:00.000100''"
            "''2024-03-01T09:00:00.000200''" Map.empty sample_processor
            "''ff00_0f0f_1234''" sample_info]
  show ?thesis
    unfolding id new loc name by auto
qed

text \<open>The call returns \<open>None\<close>, not the identifier \<open>ff00_0f0f_123400\<close> under which
  it stored the record.\<close>

theorem add_returns_none_counterexample:
  "snd (snd (add_to_fingerprint_database sample_storage_lib no_faults
               ''2024-03-01T09:00:00.000100'' ''2024-03-01T09:00:00.000200'' Map.empty
               sample_processor (Some ''ff00_0f0f_1234'') sample_info)) = Inr PyNone \<and>
   map (\<lambda>entry. (fst entry, count (snd entry)))
     (fingerprint_database
        (fst (snd (add_to_fingerprint_database sample_storage_lib no_faults
               ''2024-03-01T09:00:00.000100'' ''2024-03-01T09:00:00.000200'' Map.empty
               sample_processor (Some ''ff00_0f0f_1234'') sample_info)))) =
     [(''ff00_0f0f_123400'', 1)]"
  by (simp add: add_to_fingerprint_database_eq Let_def sample_storage_lib_def
      sample_processor_def)

subsection \<open>The counter and the list of locations\<close>

lemma counts_match_dict_set:
  "counts_match db \<Longrightarrow> count r = int (length (locations r)) \<Longrightarrow>
   counts_match (dict_set db k r)"
  by (induction db k r rule: dict_set.induct) (auto simp: counts_match_def)

lemma counts_match_lookup:
  "counts_match db \<Longrightarrow> map_of db k = Some r \<Longrightarrow> count r = int (length (locations r))"
  by (induction db) (auto simp: counts_match_def split: if_splits)

lemma add_preserves_counts:
  assumes "counts_match (fingerprint_database st)"
  shows "counts_match (fingerprint_database
           (fst (snd (add_to_fingerprint_database lib faults t_first t_loc fs st fp image_info))))"
proof (cases fp)
  case None
  then show ?thesis using assms by (simp add: add_to_fingerprint_database_def)
next
  case (Some f)
  show ?thesis
  proof (cases "map_of (fingerprint_database st) (take 16 (md5_hexdigest lib f))")
    case None
    then show ?thesis
      unfolding Some add_to_fingerprint_database_eq
      using assms by (simp add: Let_def counts_match_dict_set)
  next
    case (Some r0)
    then show ?thesis
      unfolding \<open>fp = Some f\<close> add_to_fingerprint_database_eq
      using assms counts_match_lookup [OF assms Some]
      by (simp add: Let_def counts_match_dict_set)
  qed
qed

lemma add_calls_preserve_counts:
  "counts_match (fingerprint_database st) \<Longrightarrow>
   counts_match (fingerprint_database (snd (add_calls lib calls fs st)))"
proof (induction calls arbitrary: fs st)
  case Nil
  then show ?case by simp
next
  case (Cons c cs)
  obtain fs' st' r where step:
    "add_to_fingerprint_database lib (call_faults c) (call_t_first c) (call_t_loc c)
       fs st (call_fingerprint c) (call_info c) = (fs', st', r)"
    by (cases "add_to_fingerprint_database lib (call_faults c) (call_t_first c) (call_t_loc c)
       fs st (call_fingerprint c) (call_info c)") auto
  have "counts_match (fingerprint_database st')"
    using add_preserves_counts [OF Cons.prems, of lib "call_faults c" "call_t_first c"
        "call_t_loc c" fs "call_fingerprint c" "call_info c"]
    by (simp add: step)
  then show ?case using Cons.IH [of st' fs'] by (simp add: step)
qed

text \<open>
  Claim C10. Starting from an empty database, after any sequence of calls of
  \<open>add_to_fingerprint_database\<close> (a call with the fingerprint \<open>None\<close> raises and
  changes nothing), every record has a count equal to the length of its list of
  locations.
\<close>

theorem count_equals_locations:
  assumes "fingerprint_database st = []"
  shows "counts_match (fingerprint_database (snd (add_calls lib calls fs st)))"
proof -
  have "counts_match (fingerprint_database st)"
    using assms by (simp add: counts_match_def)
  then show ?thesis by (rule add_calls_preserve_counts)
qed

theorem count_equals_locations_witness:
  "fingerprint_database sample_processor = [] \<and>
   counts_match (fingerprint_database
     (snd (add_calls sample_storage_lib sample_calls Map.empty sample_processor))) \<and>
   map (\<lambda>entry. (fst entry, count (snd entry), length (locations (snd entry))))
     (fingerprint_database
        (snd (add_calls sample_storage_lib sample_calls Map.empty sample_processor))) =
     [(''ff00_0f0f_123400'', 2, 2)]"
proof -
  have e: "fingerprint_database sample_processor = []"
    by (simp add: sample_processor_def)
  have v: "map (\<lambda>entry. (fst entry, count (snd entry), length (locations (snd entry))))
     (fingerprint_database
        (snd (add_calls sample_storage_lib sample_calls Map.empty sample_processor))) =
     [(''ff00_0f0f_123400'', 2, 2)]"
    by (simp add: sample_calls_def sample_call_def add_to_fingerprint_database_eq Let_def
        add_to_fingerprint_database_def sample_storage_lib_def sample_processor_def
        save_cases no_faults_def)
  from count_equals_locations [OF e, of sample_storage_lib sample_calls Map.empty] e v
  show ?thesis by blast
qed

section \<open>Properties of generating a fingerprint\<close>

lemma generate_never_raises: "\<exists>r. generate_perceptual_hash lib a = Inr r"
  by (cases "perceptual_hash_body lib a") (simp_all add: generate_perceptual_hash_def)

text \<open>
  Claim C4, as the code has it. \<open>generate_perceptual_hash\<close> never raises. When the
  buffer cannot be normalised (rescaling an array that is not \<open>uint8\<close> raises, or
  \<open>Image.fromarray\<close> raises on the array, rescaled or not) the error is absorbed and
  the call returns \<open>None\<close>; the same holds when one of the three hashes raises.
  Otherwise it returns the three hash texts joined by underscores.
\<close>

theorem generate_absorbs_errors:
  "(\<exists>r. generate_perceptual_hash lib a = Inr r) \<and>
   (\<not> is_uint8 lib a \<and> times255_uint8 lib a = Inl e \<longrightarrow>
      generate_perceptual_hash lib a = Inr None) \<and>
   ((if is_uint8 lib a then Inr a else times255_uint8 lib a) = Inr arr \<and>
    fromarray lib arr = Inl e \<longrightarrow>
      generate_perceptual_hash lib a = Inr None) \<and>
   ((if is_uint8 lib a then Inr a else times255_uint8 lib a) = Inr arr \<and>
    fromarray lib arr = Inr img \<and>
    (average_hash lib img = Inl e \<or> phash lib img = Inl e \<or> dhash lib img = Inl e) \<longrightarrow>
      generate_perceptual_hash lib a = Inr None) \<and>
   ((if is_uint8 lib a then Inr a else times255_uint8 lib a) = Inr arr \<and>
    fromarray lib arr = Inr img \<and>
    average_hash lib img = Inr ahash \<and> phash lib img = Inr phash_text \<and>
    dhash lib img = Inr dhash_text \<longrightarrow>
      generate_perceptual_hash lib a =
        Inr (Some (ahash @ ''_'' @ phash_text @ ''_'' @ dhash_text)))"
proof (intro conjI impI)
  show "\<exists>r. generate_perceptual_hash lib a = Inr r" by (rule generate_never_raises)
next
  assume "\<not> is_uint8 lib a \<and> times255_uint8 lib a = Inl e"
  then show "generate_perceptual_hash lib a = Inr None"
    by (simp add: generate_perceptual_hash_def perceptual_hash_body_def)
next
  assume "(if is_uint8 lib a then Inr a else times255_uint8 lib a) = Inr arr \<and>
    fromarray lib arr = Inl e"
  then show "generate_perceptual_hash lib a = Inr None"
    by (auto simp: generate_perceptual_hash_def perceptual_hash_body_def split: if_splits)
next
  assume "(if is_uint8 lib a then Inr a else times255_uint8 lib a) = Inr arr \<and>
    fromarray lib arr = Inr img \<and>
    (average_hash lib img = Inl e \<or> phash lib img = Inl e \<or> dhash lib img = Inl e)"
  then show "generate_perceptual_hash lib a = Inr None"
    by (auto simp: generate_perceptual_hash_def perceptual_hash_body_def
        split: if_splits sum.splits)
next
  assume "(if is_uint8 lib a then Inr a else times255_uint8 lib a) = Inr arr \<and>
    fromarray lib arr = Inr img \<and>
    average_hash lib img = Inr ahash \<and> phash lib img = Inr phash_text \<and>
    dhash lib img = Inr dhash_text"
  then show "generate_perceptual_hash lib a =
        Inr (Some (ahash @ ''_'' @ phash_text @ ''_'' @ dhash_text))"
    by (auto simp: generate_perceptual_hash_def perceptual_hash_body_def split: if_splits)
qed

text \<open>The statement at an array of text, at the five-channel array as \<open>uint8\<close> and
  as \<open>float64\<close>, at the sample image with a library whose \<open>phash\<close> raises, and
  at the sample image.\<close>

theorem generate_absorbs_errors_witness:
  "\<not> is_uint8 sample_image_lib text_array \<and>
   times255_uint8 sample_image_lib text_array = Inl TypeError \<and>
   generate_perceptual_hash sample_image_lib text_array = Inr None \<and>
   fromarray sample_image_lib five_channels = Inl TypeError \<and>
   generate_perceptual_hash sample_image_lib five_channels = Inr None \<and>
   times255_uint8 sample_image_lib five_channels_float = Inr five_channels \<and>
   generate_perceptual_hash sample_image_lib five_channels_float = Inr None \<and>
   phash (sample_image_lib\<lparr>phash := (\<lambda>img. Inl ValueError)\<rparr>) ''ff00'' = Inl ValueError \<and>
   generate_perceptual_hash (sample_image_lib\<lparr>phash := (\<lambda>img. Inl ValueError)\<rparr>)
     \<lparr>arr_dtype = Uint8, arr_shape = [1, 4, 3], arr_pixels = ''ff00''\<rparr> = Inr None \<and>
   generate_perceptual_hash sample_image_lib
     \<lparr>arr_dtype = Uint8, arr_shape = [1, 4, 3], arr_pixels = ''ff00''\<rparr> =
     Inr (Some ''ff00_0f0f_1234'')"
proof -
  let ?img = "\<lparr>arr_dtype = Uint8, arr_shape = [1, 4, 3], arr_pixels = ''ff00''\<rparr>"
  let ?bad = "sample_image_lib\<lparr>phash := (\<lambda>img. Inl ValueError)\<rparr>"
  have a: "\<not> is_uint8 sample_image_lib text_array \<and>
           times255_uint8 sample_image_lib text_array = Inl TypeError"
    by (simp add: sample_image_lib_def text_array_def)
  have b: "(if is_uint8 sample_image_lib five_channels then Inr five_channels
            else times255_uint8 sample_image_lib five_channels) = Inr five_channels \<and>
           fromarray sample_image_lib five_channels = Inl TypeError"
    by (simp add: sample_image_lib_def five_channels_def)
  have c: "(if is_uint8 sample_image_lib five_channels_float then Inr five_channels_float
            else times255_uint8 sample_image_lib five_channels_float) = Inr five_channels \<and>
           fromarray sample_image_lib five_channels = Inl TypeError"
    by (simp add: sample_image_lib_def five_channels_def five_channels_float_def)
  have d: "(if is_uint8 ?bad ?img then Inr ?img else times255_uint8 ?bad ?img) = Inr ?img \<and>
           fromarray ?bad ?img = Inr ''ff00'' \<and>
           (average_hash ?bad ''ff00'' = Inl ValueError \<or> phash ?bad ''ff00'' = Inl ValueError \<or>
            dhash ?bad ''ff00'' = Inl ValueError)"
    by (simp add: sample_image_lib_def)
  have e: "(if is_uint8 sample_image_lib ?img then Inr ?img
            else times255_uint8 sample_image_lib ?img) = Inr ?img \<and>
           fromarray sample_image_lib ?img = Inr ''ff00'' \<and>
           average_hash sample_image_lib ''ff00'' = Inr ''ff00'' \<and>
           phash sample_image_lib ''ff00'' = Inr ''0f0f'' \<and>
           dhash sample_image_lib ''ff00'' = Inr ''1234''"
    by (simp add: sample_image_lib_def)
  have f: "times255_uint8 sample_image_lib five_channels_float = Inr five_channels"
    by (simp add: sample_image_lib_def five_channels_def five_channels_float_def)
  have g: "phash ?bad ''ff00'' = Inl ValueError" by simp
  have j: "''ff00'' @ ''_'' @ ''0f0f'' @ ''_'' @ ''1234'' = ''ff00_0f0f_1234''" by simp
  from generate_absorbs_errors [where lib = sample_image_lib and a = text_array and e = TypeError] a
  have 1: "generate_perceptual_hash sample_image_lib text_array = Inr None" by blast
  from generate_absorbs_errors
         [where lib = sample_image_lib and a = five_channels and e = TypeError
            and arr = five_channels] b
  have 2: "generate_perceptual_hash sample_image_lib five_channels = Inr None" by blast
  from generate_absorbs_errors
         [where lib = sample_image_lib and a = five_channels_float and e = TypeError
            and arr = five_channels] c
  have 3: "generate_perceptual_hash sample_image_lib five_channels_float = Inr None" by blast
  from generate_absorbs_errors
         [where lib = ?bad and a = ?img and e = ValueError and arr = ?img and img = "''ff00''"] d
  have 4: "generate_perceptual_hash ?bad ?img = Inr None" by blast
  from generate_absorbs_errors
         [where lib = sample_image_lib and a = ?img and arr = ?img and img = "''ff00''"
            and ahash = "''ff00''" and phash_text = "''0f0f''" and dhash_text = "''1234''"] e
  have 5: "generate_perceptual_hash sample_image_lib ?img = Inr (Some ''ff00_0f0f_1234'')"
    unfolding j by blast
  from a b f g 1 2 3 4 5 show ?thesis by blast
qed

text \<open>A \<open>uint8\<close> array with five channels, which \<open>Image.fromarray\<close> refuses with
  \<open>TypeError\<close>: the call returns \<open>None\<close>.\<close>

theorem generate_returns_none_counterexample:
  "fromarray sample_image_lib five_channels = Inl TypeError \<and>
   generate_perceptual_hash sample_image_lib five_channels = Inr None"
  by (simp add: generate_perceptual_hash_def perceptual_hash_body_def sample_image_lib_def
      five_channels_def)

section \<open>Properties of loading an image\<close>

subsection \<open>What a successful load did\<close>

lemma add_returns_none:
  "add_to_fingerprint_database slib faults t_first t_loc fs st fp image_info = (fs', st', Inr u)
   \<Longrightarrow> u = PyNone"
  by (auto simp: add_to_fingerprint_database_def Let_def
      split: option.splits prod.splits)

lemma load_body_success:
  assumes "load_image_body lib slib faults clock fs st file_path content =
             (fs', st', printed, Inr (image_hash, image_info))"
  shows "\<exists>f sims. info_fingerprint image_info = Some f \<and>
             find_similar_images (fingerprint_database st) (Some f) 90 = Inr sims \<and>
             printed = report_matches (fingerprint_database st') sims \<and>
             add_to_fingerprint_database slib faults (now_first_seen clock) (now_location clock)
               fs (st\<lparr>loaded_images := (loaded_images st)(image_hash \<mapsto> image_info)\<rparr>)
               (Some f) image_info = (fs', st', Inr PyNone)"
  using assms
  by (auto simp: load_image_body_def Let_def
      split: option.splits sum.splits prod.splits if_splits dest: add_returns_none)

lemma load_success:
  assumes "load_image_from_path lib slib faults clock fs st file_path =
             (fs', st', printed, Inr (image_hash, image_info))"
  shows "\<exists>f sims. info_fingerprint image_info = Some f \<and>
             find_similar_images (fingerprint_database st) (Some f) 90 = Inr sims \<and>
             printed = report_matches (fingerprint_database st') sims \<and>
             add_to_fingerprint_database slib faults (now_first_seen clock) (now_location clock)
               fs (st\<lparr>loaded_images := (loaded_images st)(image_hash \<mapsto> image_info)\<rparr>)
               (Some f) image_info = (fs', st', Inr PyNone)"
proof -
  from assms obtain content where
    "load_image_body lib slib faults clock fs st file_path content =
       (fs', st', printed, Inr (image_hash, image_info))"
    by (auto simp: load_image_from_path_def
        split: option.splits sum.splits if_splits prod.splits)
  then show ?thesis by (rule load_body_success)
qed

lemma add_db_lookup:
  assumes "add_to_fingerprint_database slib faults t_first t_loc fs st (Some f) image_info =
             (fs', st', r)"
  shows "map_of (fingerprint_database st') (record_id slib f) =
           Some (case map_of (fingerprint_database st) (record_id slib f) of
                   None \<Rightarrow>
                     \<lparr>fingerprint = f, original_filename = info_filename image_info,
                      first_seen = t_first, locations = [location_of t_loc image_info],
                      count = 1\<rparr>
                 | Some r0 \<Rightarrow>
                     r0\<lparr>locations := locations r0 @ [location_of t_loc image_info],
                        count := count r0 + 1\<rparr>)"
  using assms unfolding add_to_fingerprint_database_eq record_id_def
  by (cases "map_of (fingerprint_database st) (take 16 (md5_hexdigest slib f))")
     (auto simp: Let_def map_of_dict_set)

lemma matches_from_store:
  assumes "find_similar_images db fp th = Inr sims" and "m \<in> set sims"
  shows "(sim_id m, sim_data m) \<in> set db"
  using assms unfolding find_similar_images_eq
  by (auto simp: as_match_def)

lemma new_id_not_matched:
  assumes "find_similar_images db fp th = Inr sims" and "map_of db k = None"
  shows "k \<notin> sim_id ` set sims"
proof
  assume "k \<in> sim_id ` set sims"
  then obtain m where "m \<in> set sims" and "sim_id m = k" by auto
  with matches_from_store [OF assms(1), of m] have "(k, sim_data m) \<in> set db" by simp
  then have "k \<in> fst ` set db" by force
  with assms(2) show False by (simp add: map_of_eq_None_iff)
qed

lemma exact_match_found:
  assumes "(k, r) \<in> set db" and "fingerprint r = f" and "valid_fingerprint f"
    and "find_similar_images db (Some f) 90 = Inr sims"
  shows "\<lparr>sim_id = k, similarity = 100, sim_data = r\<rparr> \<in> set sims"
proof -
  have "calculate_fingerprint_similarity (Some f) (Some (fingerprint r)) = Inr 100"
    using assms(2,3) by (simp add: calculate_fingerprint_similarity_def similarity_body_refl)
  then have score: "score_of (Some f) r = 100" by (simp add: score_of_def)
  have "as_match (Some f) (k, r) \<in> set sims"
    using assms(1,4) score unfolding find_similar_images_eq by force
  then show ?thesis by (simp add: as_match_def score)
qed

lemma short_list_reported:
  assumes "m \<in> set sims" and "length sims \<le> 3" and "map_of db (sim_id m) = Some r"
  shows "\<lparr>rep_similarity = similarity m, rep_original_filename = original_filename r,
          rep_first_seen = first_seen r, rep_same_image = (similarity m > 95)\<rparr>
           \<in> set (report_matches db sims)"
proof -
  have "take 3 sims = sims" using assms(2) by simp
  then show ?thesis
    using assms(1,3) by (force simp: report_matches_def Let_def)
qed

text \<open>
  Claim C2, as the code has it. \<open>load_image_from_path\<close> queries the database before
  it records the observation, but the list of matches is a local variable: the call
  returns only \<open>(image_hash, image_info)\<close> and prints the first three matches, read
  from the database as it is after the recording. For every load that succeeds, the
  list it computes is the result of \<open>find_similar_images\<close> on the database as it was
  before the call, every match is an entry of that database, and when the identifier of
  the loaded fingerprint was new the list does not contain it. When an image whose
  identifier is new is loaded and then an image with the same (valid) fingerprint is
  loaded, the first list does not contain the new record; the second list contains the
  record of the first load, with count 1 and one location, at similarity 100;
  afterwards the record has count 2 and two locations, and it is among the printed
  matches when the second list has at most three entries.
\<close>

theorem ingest_queries_before_recording:
  "(load_image_from_path lib slib faults clock fs st file_path =
      (fs', st', printed, Inr (image_hash, image_info)) \<longrightarrow>
    (\<exists>f similar_images.
         info_fingerprint image_info = Some f \<and>
         find_similar_images (fingerprint_database st) (Some f) 90 = Inr similar_images \<and>
         printed = report_matches (fingerprint_database st') similar_images \<and>
         (\<forall>m\<in>set similar_images. (sim_id m, sim_data m) \<in> set (fingerprint_database st)) \<and>
         (map_of (fingerprint_database st) (record_id slib f) = None \<longrightarrow>
            record_id slib f \<notin> sim_id ` set similar_images))) \<and>
   (load_image_from_path lib slib faults_first clock_first fs_before st_before path_first =
      (fs_between, st_between, printed_first, Inr (hash_first, info_first)) \<and>
    load_image_from_path lib slib faults_second clock_second fs_later st_between path_second =
      (fs_after, st_after, printed_second, Inr (hash_second, info_second)) \<and>
    info_fingerprint info_first = Some g \<and> info_fingerprint info_second = Some g \<and>
    valid_fingerprint g \<and>
    map_of (fingerprint_database st_before) (record_id slib g) = None \<longrightarrow>
      (\<exists>sims_first.
         find_similar_images (fingerprint_database st_before) (Some g) 90 = Inr sims_first \<and>
         printed_first = report_matches (fingerprint_database st_between) sims_first \<and>
         record_id slib g \<notin> sim_id ` set sims_first) \<and>
      (\<exists>sims_second r1 r2.
         find_similar_images (fingerprint_database st_between) (Some g) 90 = Inr sims_second \<and>
         printed_second = report_matches (fingerprint_database st_after) sims_second \<and>
         map_of (fingerprint_database st_between) (record_id slib g) = Some r1 \<and>
         count r1 = 1 \<and> length (locations r1) = 1 \<and>
         \<lparr>sim_id = record_id slib g, similarity = 100, sim_data = r1\<rparr> \<in> set sims_second \<and>
         map_of (fingerprint_database st_after) (record_id slib g) = Some r2 \<and>
         count r2 = 2 \<and> length (locations r2) = 2 \<and>
         (length sims_second \<le> 3 \<longrightarrow>
            \<lparr>rep_similarity = 100, rep_original_filename = original_filename r2,
             rep_first_seen = first_seen r2, rep_same_image = True\<rparr> \<in> set printed_second)))"
proof (rule conjI; rule impI)
  assume load: "load_image_from_path lib slib faults clock fs st file_path =
      (fs', st', printed, Inr (image_hash, image_info))"
  from load_success [OF load] obtain f sims where
    f: "info_fingerprint image_info = Some f"
    and q: "find_similar_images (fingerprint_database st) (Some f) 90 = Inr sims"
    and p: "printed = report_matches (fingerprint_database st') sims"
    by blast
  have old: "\<forall>m\<in>set sims. (sim_id m, sim_data m) \<in> set (fingerprint_database st)"
    using matches_from_store [OF q] by blast
  have fresh: "map_of (fingerprint_database st) (record_id slib f) = None \<longrightarrow>
            record_id slib f \<notin> sim_id ` set sims"
    using new_id_not_matched [OF q] by blast
  show "\<exists>f similar_images.
         info_fingerprint image_info = Some f \<and>
         find_similar_images (fingerprint_database st) (Some f) 90 = Inr similar_images \<and>
         printed = report_matches (fingerprint_database st') similar_images \<and>
         (\<forall>m\<in>set similar_images. (sim_id m, sim_data m) \<in> set (fingerprint_database st)) \<and>
         (map_of (fingerprint_database st) (record_id slib f) = None \<longrightarrow>
            record_id slib f \<notin> sim_id ` set similar_images)"
    using f q p old fresh by (intro exI [of _ f] exI [of _ sims]) simp
next
  assume scenario:
   "load_image_from_path lib slib faults_first clock_first fs_before st_before path_first =
      (fs_between, st_between, printed_first, Inr (hash_first, info_first)) \<and>
    load_image_from_path lib slib faults_second clock_second fs_later st_between path_second =
      (fs_after, st_after, printed_second, Inr (hash_second, info_second)) \<and>
    info_fingerprint info_first = Some g \<and> info_fingerprint info_second = Some g \<and>
    valid_fingerprint g \<and>
    map_of (fingerprint_database st_before) (record_id slib g) = None"
  then have first:
    "load_image_from_path lib slib faults_first clock_first fs_before st_before path_first =
      (fs_between, st_between, printed_first, Inr (hash_first, info_first))"
    and second:
    "load_image_from_path lib slib faults_second clock_second fs_later st_between path_second =
      (fs_after, st_after, printed_second, Inr (hash_second, info_second))"
    and g1: "info_fingerprint info_first = Some g"
    and g2: "info_fingerprint info_second = Some g"
    and valid: "valid_fingerprint g"
    and new: "map_of (fingerprint_database st_before) (record_id slib g) = None"
    by blast+
  from load_success [OF first] g1 obtain sims_first where
    q1: "find_similar_images (fingerprint_database st_before) (Some g) 90 = Inr sims_first"
    and p1: "printed_first = report_matches (fingerprint_database st_between) sims_first"
    and a1: "add_to_fingerprint_database slib faults_first (now_first_seen clock_first)
               (now_location clock_first) fs_before
               (st_before\<lparr>loaded_images := (loaded_images st_before)(hash_first \<mapsto> info_first)\<rparr>)
               (Some g) info_first = (fs_between, st_between, Inr PyNone)"
    by auto
  from load_success [OF second] g2 obtain sims_second where
    q2: "find_similar_images (fingerprint_database st_between) (Some g) 90 = Inr sims_second"
    and p2: "printed_second = report_matches (fingerprint_database st_after) sims_second"
    and a2: "add_to_fingerprint_database slib faults_second (now_first_seen clock_second)
               (now_location clock_second) fs_later
               (st_between\<lparr>loaded_images :=
                   (loaded_images st_between)(hash_second \<mapsto> info_second)\<rparr>)
               (Some g) info_second = (fs_after, st_after, Inr PyNone)"
    by auto
  let ?r1 = "\<lparr>fingerprint = g, original_filename = info_filename info_first,
              first_seen = now_first_seen clock_first,
              locations = [location_of (now_location clock_first) info_first], count = 1\<rparr>"
  let ?r2 = "?r1\<lparr>locations := locations ?r1 @ [location_of (now_location clock_second) info_second],
                   count := count ?r1 + 1\<rparr>"
  let ?m = "\<lparr>sim_id = record_id slib g, similarity = 100, sim_data = ?r1\<rparr>"
  have l1: "map_of (fingerprint_database st_between) (record_id slib g) = Some ?r1"
    using add_db_lookup [OF a1] new by simp
  have l2: "map_of (fingerprint_database st_after) (record_id slib g) = Some ?r2"
    using add_db_lookup [OF a2] l1 by simp
  have own: "record_id slib g \<notin> sim_id ` set sims_first"
    using new_id_not_matched [OF q1 new] .
  have stored: "(record_id slib g, ?r1) \<in> set (fingerprint_database st_between)"
    using l1 by (rule map_of_SomeD)
  have found: "?m \<in> set sims_second"
    using exact_match_found [OF stored _ valid q2] by simp
  have shown: "\<lparr>rep_similarity = 100, rep_original_filename = original_filename ?r2,
             rep_first_seen = first_seen ?r2, rep_same_image = True\<rparr> \<in> set printed_second"
    if short: "length sims_second \<le> 3"
    using short_list_reported [OF found short, of "fingerprint_database st_after" ?r2] l2
    unfolding p2 by simp
  have part1: "\<exists>sims_first.
         find_similar_images (fingerprint_database st_before) (Some g) 90 = Inr sims_first \<and>
         printed_first = report_matches (fingerprint_database st_between) sims_first \<and>
         record_id slib g \<notin> sim_id ` set sims_first"
    using q1 p1 own by blast
  have part2: "\<exists>sims_second r1 r2.
         find_similar_images (fingerprint_database st_between) (Some g) 90 = Inr sims_second \<and>
         printed_second = report_matches (fingerprint_database st_after) sims_second \<and>
         map_of (fingerprint_database st_between) (record_id slib g) = Some r1 \<and>
         count r1 = 1 \<and> length (locations r1) = 1 \<and>
         \<lparr>sim_id = record_id slib g, similarity = 100, sim_data = r1\<rparr> \<in> set sims_second \<and>
         map_of (fingerprint_database st_after) (record_id slib g) = Some r2 \<and>
         count r2 = 2 \<and> length (locations r2) = 2 \<and>
         (length sims_second \<le> 3 \<longrightarrow>
            \<lparr>rep_similarity = 100, rep_original_filename = original_filename r2,
             rep_first_seen = first_seen r2, rep_same_image = True\<rparr> \<in> set printed_second)"
    using q2 p2 l1 l2 found shown
    by (intro exI [of _ sims_second] exI [of _ ?r1] exI [of _ ?r2]) simp
  from part1 part2 show
     "(\<exists>sims_first.
         find_similar_images (fingerprint_database st_before) (Some g) 90 = Inr sims_first \<and>
         printed_first = report_matches (fingerprint_database st_between) sims_first \<and>
         record_id slib g \<notin> sim_id ` set sims_first) \<and>
      (\<exists>sims_second r1 r2.
         find_similar_images (fingerprint_database st_between) (Some g) 90 = Inr sims_second \<and>
         printed_second = report_matches (fingerprint_database st_after) sims_second \<and>
         map_of (fingerprint_database st_between) (record_id slib g) = Some r1 \<and>
         count r1 = 1 \<and> length (locations r1) = 1 \<and>
         \<lparr>sim_id = record_id slib g, similarity = 100, sim_data = r1\<rparr> \<in> set sims_second \<and>
         map_of (fingerprint_database st_after) (record_id slib g) = Some r2 \<and>
         count r2 = 2 \<and> length (locations r2) = 2 \<and>
         (length sims_second \<le> 3 \<longrightarrow>
            \<lparr>rep_similarity = 100, rep_original_filename = original_filename r2,
             rep_first_seen = first_seen r2, rep_same_image = True\<rparr> \<in> set printed_second))"
    by blast
qed

text \<open>The two sample loads, evaluated.\<close>

lemma sample_lib_simps:
  "image_open sample_image_lib ''ff00'' = Inr ''ff00''"
  "np_array sample_image_lib ''ff00'' =
     \<lparr>arr_dtype = Uint8, arr_shape = [1, 4, 3], arr_pixels = ''ff00''\<rparr>"
  "convert_to_rgb sample_image_lib \<lparr>arr_dtype = d, arr_shape = [h, w, 3], arr_pixels = px\<rparr> =
     Inr \<lparr>arr_dtype = d, arr_shape = [h, w, 3], arr_pixels = px\<rparr>"
  "generate_perceptual_hash sample_image_lib
     \<lparr>arr_dtype = Uint8, arr_shape = [h, w, 3], arr_pixels = px\<rparr> =
     Inr (Some (px @ ''_0f0f_1234''))"
  "generate_image_hash sample_image_lib
     \<lparr>arr_dtype = d, arr_shape = sh, arr_pixels = px\<rparr> = take 32 px"
  "check_image_format sample_image_lib ''/img/a.png''"
  "img_size sample_image_lib ''ff00'' = (1, 4)"
  "img_mode sample_image_lib img = ''RGB''"
  "img_format sample_image_lib img = Some ''PNG''"
  "path_basename sample_image_lib ''/img/a.png'' = ''a.png''"
  by (simp_all add: sample_image_lib_def convert_to_rgb_def generate_perceptual_hash_def
      perceptual_hash_body_def generate_image_hash_def check_image_format_def
      supported_formats_def)

lemma first_load_eq:
  "first_load =
     (image_disk(''/data/image_fingerprints.json'' \<mapsto> ''{ff00_0f0f_123400}''),
      sample_processor
        \<lparr>loaded_images := [''ff00'' \<mapsto> sample_info],
         fingerprint_database :=
           [(''ff00_0f0f_123400'',
             \<lparr>fingerprint = ''ff00_0f0f_1234'', original_filename = ''a.png'',
              first_seen = ''2024-03-01T09:00:00.000100'',
              locations = [\<lparr>loc_path = ''/img/a.png'', loc_filename = ''a.png'',
                            loc_timestamp = ''2024-03-01T09:00:00.000200'', loc_size = 4\<rparr>],
              count = 1\<rparr>)]\<rparr>,
      [],
      Inr (''ff00'', sample_info))"
  by (simp add: first_load_def load_image_from_path_def load_image_body_def image_disk_def
      sample_lib_simps sample_info_def sample_clock_def sample_processor_def
      find_similar_images_def add_to_fingerprint_database_eq Let_def location_of_def
      sample_storage_lib_def save_cases no_faults_def report_matches_def)

lemma second_load_eq:
  "second_load =
     (image_disk(''/data/image_fingerprints.json'' \<mapsto> ''{ff00_0f0f_123400}''),
      sample_processor
        \<lparr>loaded_images := [''ff00'' \<mapsto> sample_info],
         fingerprint_database :=
           [(''ff00_0f0f_123400'',
             \<lparr>fingerprint = ''ff00_0f0f_1234'', original_filename = ''a.png'',
              first_seen = ''2024-03-01T09:00:00.000100'',
              locations = [\<lparr>loc_path = ''/img/a.png'', loc_filename = ''a.png'',
                            loc_timestamp = ''2024-03-01T09:00:00.000200'', loc_size = 4\<rparr>,
                           \<lparr>loc_path = ''/img/a.png'', loc_filename = ''a.png'',
                            loc_timestamp = ''2024-03-01T09:00:00.000200'', loc_size = 4\<rparr>],
              count = 2\<rparr>)]\<rparr>,
      [\<lparr>rep_similarity = 100, rep_original_filename = ''a.png'',
        rep_first_seen = ''2024-03-01T09:00:00.000100'', rep_same_image = True\<rparr>],
      Inr (''ff00'', sample_info))"
  unfolding second_load_def first_load_eq
  by (simp add: load_image_from_path_def load_image_body_def image_disk_def
      sample_lib_simps sample_info_def sample_clock_def sample_processor_def
      find_similar_images_def add_to_fingerprint_database_eq Let_def location_of_def
      sample_storage_lib_def save_cases no_faults_def report_matches_def
      calculate_fingerprint_similarity_def similarity_body_def distance_def)

theorem ingest_queries_before_recording_witness:
  "valid_fingerprint ''ff00_0f0f_1234'' \<and>
   map_of (fingerprint_database sample_processor)
     (record_id sample_storage_lib ''ff00_0f0f_1234'') = None \<and>
   snd (snd first_load) = ([], Inr (''ff00'', sample_info)) \<and>
   (\<exists>sims_first.
      find_similar_images (fingerprint_database sample_processor)
        (Some ''ff00_0f0f_1234'') 90 = Inr sims_first \<and>
      record_id sample_storage_lib ''ff00_0f0f_1234'' \<notin> sim_id ` set sims_first) \<and>
   (\<exists>sims_second r1 r2.
      find_similar_images (fingerprint_database (fst (snd first_load)))
        (Some ''ff00_0f0f_1234'') 90 = Inr sims_second \<and>
      map_of (fingerprint_database (fst (snd first_load)))
        (record_id sample_storage_lib ''ff00_0f0f_1234'') = Some r1 \<and>
      count r1 = 1 \<and> length (locations r1) = 1 \<and>
      \<lparr>sim_id = record_id sample_storage_lib ''ff00_0f0f_1234'', similarity = 100,
       sim_data = r1\<rparr> \<in> set sims_second \<and>
      map_of (fingerprint_database (fst (snd second_load)))
        (record_id sample_storage_lib ''ff00_0f0f_1234'') = Some r2 \<and>
      count r2 = 2 \<and> length (locations r2) = 2)"
proof -
  obtain fs_a st_a where first: "first_load = (fs_a, st_a, [], Inr (''ff00'', sample_info))"
    using first_load_eq by blast
  obtain fs_b st_b printed_b where
    second: "second_load = (fs_b, st_b, printed_b, Inr (''ff00'', sample_info))"
    using second_load_eq by blast
  have valid: "valid_fingerprint ''ff00_0f0f_1234''"
    by (simp add: valid_fingerprint_def)
  have new: "map_of (fingerprint_database sample_processor)
     (record_id sample_storage_lib ''ff00_0f0f_1234'') = None"
    by (simp add: sample_processor_def)
  have fp: "info_fingerprint sample_info = Some ''ff00_0f0f_1234''"
    by (simp add: sample_info_def)
  have l1: "load_image_from_path sample_image_lib sample_storage_lib no_faults sample_clock
       image_disk sample_processor ''/img/a.png'' =
       (fs_a, st_a, [], Inr (''ff00'', sample_info))"
    using first by (simp add: first_load_def)
  have l2: "load_image_from_path sample_image_lib sample_storage_lib no_faults sample_clock
       fs_a st_a ''/img/a.png'' = (fs_b, st_b, printed_b, Inr (''ff00'', sample_info))"
    using second by (simp add: second_load_def first)
  from ingest_queries_before_recording
    [where lib = sample_image_lib and slib = sample_storage_lib
       and faults = no_faults and clock = sample_clock and fs = image_disk
       and st = sample_processor and file_path = "''/img/a.png''" and fs' = fs_a
       and st' = st_a and printed = "[]" and image_hash = "''ff00''"
       and image_info = sample_info
       and faults_first = no_faults and clock_first = sample_clock and fs_before = image_disk
       and st_before = sample_processor and path_first = "''/img/a.png''"
       and fs_between = fs_a and st_between = st_a and printed_first = "[]"
       and hash_first = "''ff00''" and info_first = sample_info
       and faults_second = no_faults and clock_second = sample_clock and fs_later = fs_a
       and path_second = "''/img/a.png''" and fs_after = fs_b and st_after = st_b
       and printed_second = printed_b and hash_second = "''ff00''"
       and info_second = sample_info and g = "''ff00_0f0f_1234''"]
    l1 l2 fp valid new
  have "(\<exists>sims_first.
           find_similar_images (fingerprint_database sample_processor)
             (Some ''ff00_0f0f_1234'') 90 = Inr sims_first \<and>
           record_id sample_storage_lib ''ff00_0f0f_1234'' \<notin> sim_id ` set sims_first) \<and>
        (\<exists>sims_second r1 r2.
           find_similar_images (fingerprint_database st_a)
             (Some ''ff00_0f0f_1234'') 90 = Inr sims_second \<and>
           map_of (fingerprint_database st_a)
             (record_id sample_storage_lib ''ff00_0f0f_1234'') = Some r1 \<and>
           count r1 = 1 \<and> length (locations r1) = 1 \<and>
           \<lparr>sim_id = record_id sample_storage_lib ''ff00_0f0f_1234'', similarity = 100,
            sim_data = r1\<rparr> \<in> set sims_second \<and>
           map_of (fingerprint_database st_b)
             (record_id sample_storage_lib ''ff00_0f0f_1234'') = Some r2 \<and>
           count r2 = 2 \<and> length (locations r2) = 2)"
    by blast
  then show ?thesis
    using valid new by (simp add: first second)
qed

text \<open>The second load of the sample image returns the pair of the image hash and the
  image information, with no list of matches in it; the match with the earlier record
  is only printed.\<close>

theorem ingest_returns_no_matches_counterexample:
  "snd (snd (snd second_load)) = Inr (''ff00'', sample_info) \<and>
   fst (snd (snd second_load)) =
     [\<lparr>rep_similarity = 100, rep_original_filename = ''a.png'',
       rep_first_seen = ''2024-03-01T09:00:00.000100'', rep_same_image = True\<rparr>]"
  by (simp add: second_load_eq)

end
